theory Spec2Isabelle
  imports Main "HOL-Library.Word"
begin

section \<open>The macvlan CNI plugin (\<^verbatim>\<open>macvlan.go\<close>)\<close>

text \<open>
  A shallow embedding of \<^verbatim>\<open>src/macvlan.go\<close>. The plugin is a sequence of calls
  into the kernel (netlink, sysctl), into the namespace library, into the IPAM process
  and into helper functions of the package that live in other files. Those calls are
  the collaborators of the code: they are the fields of the record \<open>env\<close>, each a
  function on an abstract world \<open>'w\<close> that returns its Go result and the next world.
  The functions of \<^verbatim>\<open>macvlan.go\<close> itself are translated statement by statement,
  threading the world and a log of every collaborator call through them; every
  \<^verbatim>\<open>return err\<close> of the source is a branch of the model.
\<close>

subsection \<open>Data\<close>

type_synonym bytes = "8 word list"

text \<open>\<^verbatim>\<open>net.IP\<close> is a byte slice; \<open>None\<close> is the nil slice.\<close>

type_synonym IP = "8 word list option"

text \<open>\<^verbatim>\<open>net.IPNet{IP, Mask}\<close>.\<close>

record IPNet =
  IPNet_IP :: IP
  IPNet_Mask :: "8 word list option"

text \<open>\<^verbatim>\<open>types.Route{Dst net.IPNet; GW net.IP}\<close>.\<close>

record Route =
  Dst :: IPNet
  GW :: IP

text \<open>\<^verbatim>\<open>types.IPConfig{IP net.IPNet; Gateway net.IP; Routes []Route}\<close>.\<close>

record IPConfig =
  IPConfig_IP :: IPNet
  Gateway :: IP
  Routes :: "Route list"

record DNS =
  Nameservers :: "string list"
  Domain :: string
  Search :: "string list"
  Options :: "string list"

text \<open>\<^verbatim>\<open>types.Result{IP4 *IPConfig; IP6 *IPConfig; DNS DNS}\<close>; \<open>None\<close> is the nil pointer.\<close>

record Result =
  IP4 :: "IPConfig option"
  IP6 :: "IPConfig option"
  Result_DNS :: DNS

text \<open>
  \<^verbatim>\<open>NetConf\<close> (lines 40-46). Of the embedded \<^verbatim>\<open>types.NetConf\<close> the two fields the
  code reads are kept: \<^verbatim>\<open>IPAM.Type\<close> and \<^verbatim>\<open>DNS\<close>.
\<close>

record NetConf =
  IPAM_Type :: string
  NetConf_DNS :: DNS
  Master :: string
  Mode :: string
  MTU :: int
  IsDefaultGW :: bool

text \<open>\<^verbatim>\<open>NetArgs\<close> (lines 49-54).\<close>

record NetArgs =
  RancherContainerUUID :: string
  LinkMTUOverhead :: string
  MACAddress :: string

text \<open>\<^verbatim>\<open>skel.CmdArgs\<close>.\<close>

record CmdArgs =
  ContainerID :: string
  Netns :: string
  IfName :: string
  Args :: string
  StdinData :: bytes

text \<open>\<^verbatim>\<open>netlink.MacvlanMode\<close>; the zero value is \<open>MACVLAN_MODE_DEFAULT\<close>.\<close>

datatype MacvlanMode =
    MACVLAN_MODE_DEFAULT
  | MACVLAN_MODE_PRIVATE
  | MACVLAN_MODE_VEPA
  | MACVLAN_MODE_BRIDGE
  | MACVLAN_MODE_PASSTHRU
  | MACVLAN_MODE_SOURCE

text \<open>The \<^verbatim>\<open>Namespace\<close> attribute of a link: \<^verbatim>\<open>nil\<close>, \<^verbatim>\<open>NsPid\<close> or \<^verbatim>\<open>NsFd\<close>.\<close>

datatype NsRef = NsPid int | NsFd int

text \<open>
  \<^verbatim>\<open>netlink.LinkAttrs\<close>, with the attributes the code sets or reads; the others keep
  their zero values throughout.
\<close>

record LinkAttrs =
  Index :: int
  Link_MTU :: int
  Link_Name :: string
  ParentIndex :: int
  Namespace :: "NsRef option"

text \<open>\<^verbatim>\<open>netlink.Macvlan{LinkAttrs; Mode}\<close>.\<close>

record Macvlan =
  Macvlan_LinkAttrs :: LinkAttrs
  Macvlan_Mode :: MacvlanMode

subsection \<open>Errors\<close>

text \<open>
  A Go \<^verbatim>\<open>error\<close> is a value. \<open>External\<close> is an error that a collaborator returned;
  the other constructors are the errors \<^verbatim>\<open>macvlan.go\<close> builds, each holding what its
  format string prints. \<open>NilPointerDereference\<close> is the run-time panic of reading
  \<^verbatim>\<open>result.IP4.Routes\<close> through a nil \<^verbatim>\<open>IP4\<close>.
\<close>

datatype error =
    External string
  | LoadNetconfFailed error
  | MasterRequired
  | ParseArgsFailed string error
  | UnknownMode string
  | MasterLookupFailed string error
  | LinkCreateFailed error
  | ProxyArpFailed string error
  | RenameFailed string error
  | OpenNetnsFailed error
  | MissingIPv4Config
  | SetMacFailed error
  | GatewayConflict IP
  | NilPointerDereference

subsection \<open>Collaborator calls and the execution state\<close>

text \<open>
  One constructor for each call that leaves \<^verbatim>\<open>macvlan.go\<close>, with its arguments, and
  one for each line the code logs.
\<close>

datatype call =
    Call_LinkByName string
  | Call_RandomVethName
  | Call_LinkAdd Macvlan
  | Call_LinkDel Macvlan
  | Call_LinkSetName LinkAttrs string
  | Call_Sysctl string string
  | Call_GetNS string
  | Call_NsClose
  | Call_NsEnter
  | Call_NsLeave
  | Call_checkIfContainerInterfaceExists CmdArgs
  | Call_setInterfaceDown CmdArgs
  | Call_ExecAdd string bytes
  | Call_ExecDel string bytes
  | Call_findMACAddressForContainer string string
  | Call_setInterfaceMacAddress string string
  | Call_configureInterface string Result
  | Call_Print Result
  | Call_DelLinkByName string
  | Log_AlreadyHasInterface string
  | Log_SetDownFailed string error
  | Log_SettingMAC string string string
  | Log_FoundMAC string string string
  | Stderr_Print error

record 'w exec_state =
  world :: 'w
  calls :: "call list"

text \<open>
  The collaborators. A Go function returning \<^verbatim>\<open>error\<close> returns \<open>error option\<close>
  (\<open>None\<close> is \<^verbatim>\<open>nil\<close>); one returning \<^verbatim>\<open>(T, error)\<close> returns \<open>error + T\<close>.
  \<open>'ns\<close> is the namespace handle \<^verbatim>\<open>ns.NetNS\<close>.

  \<open>checkIfContainerInterfaceExists\<close>, \<open>setInterfaceDown\<close>, \<open>findMACAddressForContainer\<close>,
  \<open>setInterfaceMacAddress\<close> and \<open>configureInterface\<close> are functions of the package that
  are not in \<^verbatim>\<open>macvlan.go\<close>; they are taken as given, like the libraries.
  \<open>NsEnter\<close> and \<open>NsLeave\<close> are the two halves of \<^verbatim>\<open>NetNS.Do\<close>: switching the thread
  to the namespace, which can fail, and switching back.
\<close>

record ('w, 'ns) env =
  json_Unmarshal :: "bytes \<Rightarrow> error + NetConf"
  LoadArgs :: "string \<Rightarrow> error + NetArgs"
  LinkByName :: "string \<Rightarrow> 'w \<Rightarrow> (error + LinkAttrs) \<times> 'w"
  RandomVethName :: "'w \<Rightarrow> (error + string) \<times> 'w"
  LinkAdd :: "Macvlan \<Rightarrow> 'w \<Rightarrow> error option \<times> 'w"
  LinkDel :: "Macvlan \<Rightarrow> 'w \<Rightarrow> error option \<times> 'w"
  LinkSetName :: "LinkAttrs \<Rightarrow> string \<Rightarrow> 'w \<Rightarrow> error option \<times> 'w"
  Sysctl :: "string \<Rightarrow> string \<Rightarrow> 'w \<Rightarrow> (error + string) \<times> 'w"
  GetNS :: "string \<Rightarrow> 'w \<Rightarrow> (error + 'ns) \<times> 'w"
  Fd :: "'ns \<Rightarrow> int"
  NsClose :: "'ns \<Rightarrow> 'w \<Rightarrow> error option \<times> 'w"
  NsEnter :: "'ns \<Rightarrow> 'w \<Rightarrow> error option \<times> 'w"
  NsLeave :: "'ns \<Rightarrow> 'w \<Rightarrow> 'w"
  checkIfContainerInterfaceExists :: "CmdArgs \<Rightarrow> 'w \<Rightarrow> bool \<times> 'w"
  setInterfaceDown :: "CmdArgs \<Rightarrow> 'w \<Rightarrow> error option \<times> 'w"
  ExecAdd :: "string \<Rightarrow> bytes \<Rightarrow> 'w \<Rightarrow> (error + Result) \<times> 'w"
  ExecDel :: "string \<Rightarrow> bytes \<Rightarrow> 'w \<Rightarrow> error option \<times> 'w"
  findMACAddressForContainer :: "string \<Rightarrow> string \<Rightarrow> 'w \<Rightarrow> (error + string) \<times> 'w"
  setInterfaceMacAddress :: "string \<Rightarrow> string \<Rightarrow> 'w \<Rightarrow> error option \<times> 'w"
  ParseCIDR :: "string \<Rightarrow> error + (IP \<times> IPNet)"
  IPNet_String :: "IPNet \<Rightarrow> string"
  IP_Equal :: "IP \<Rightarrow> IP \<Rightarrow> bool"
  configureInterface :: "string \<Rightarrow> Result \<Rightarrow> 'w \<Rightarrow> error option \<times> 'w"
  Result_Print :: "Result \<Rightarrow> 'w \<Rightarrow> error option \<times> 'w"
  DelLinkByName :: "string \<Rightarrow> 'w \<Rightarrow> error option \<times> 'w"

text \<open>\<open>invoke c f\<close> runs the collaborator \<open>f\<close> on the world and logs the call \<open>c\<close>.\<close>

definition invoke :: "call \<Rightarrow> ('w \<Rightarrow> 'r \<times> 'w) \<Rightarrow> 'w exec_state \<Rightarrow> 'r \<times> 'w exec_state" where
  "invoke c f s =
     (case f (world s) of (r, w') \<Rightarrow> (r, \<lparr>world = w', calls = calls s @ [c]\<rparr>))"

text \<open>\<open>logLine c\<close> logs a line (\<^verbatim>\<open>logrus.Infof\<close>, \<^verbatim>\<open>fmt.Fprintf(os.Stderr, ...)\<close>).\<close>

definition logLine :: "call \<Rightarrow> 'w exec_state \<Rightarrow> 'w exec_state" where
  "logLine c s = \<lparr>world = world s, calls = calls s @ [c]\<rparr>"

subsection \<open>The namespace library\<close>

text \<open>
  Modelled from the spec: \<^verbatim>\<open>NetNS.Do\<close> of the namespace library, which the spec
  describes as executing "a closure with the calling thread's network namespace
  temporarily switched to it" and restoring "the original namespace on return
  (including on error/panic)". When the switch fails the closure does not run and the
  failure is the result (\<open>fail\<close> turns it into the caller's result type); otherwise the
  closure runs once, the thread is switched back, and the closure's result is returned.
\<close>

definition Do ::
  "('w, 'ns) env \<Rightarrow> 'ns \<Rightarrow> (error \<Rightarrow> 'r) \<Rightarrow> ('w exec_state \<Rightarrow> 'r \<times> 'w exec_state) \<Rightarrow>
   'w exec_state \<Rightarrow> 'r \<times> 'w exec_state" where
  "Do env netns fail toRun s =
     (case invoke Call_NsEnter (NsEnter env netns) s of
        (Some err, s1) \<Rightarrow> (fail err, s1)
      | (None, s1) \<Rightarrow>
          (case toRun s1 of
             (r, s2) \<Rightarrow> (r, snd (invoke Call_NsLeave (\<lambda>w. ((), NsLeave env netns w)) s2))))"

text \<open>
  Modelled from the spec: \<^verbatim>\<open>ns.WithNetNSPath\<close>, "open the namespace by path and
  [run the closure] inside it": \<^verbatim>\<open>GetNS\<close>, whose error is returned, then \<^verbatim>\<open>Do\<close>
  with the handle closed on the way out.
\<close>

definition WithNetNSPath ::
  "('w, 'ns) env \<Rightarrow> string \<Rightarrow> ('w exec_state \<Rightarrow> error option \<times> 'w exec_state) \<Rightarrow>
   'w exec_state \<Rightarrow> error option \<times> 'w exec_state" where
  "WithNetNSPath env nspath toRun s =
     (case invoke (Call_GetNS nspath) (GetNS env nspath) s of
        (Inl err, s1) \<Rightarrow> (Some err, s1)
      | (Inr netns, s1) \<Rightarrow>
          (case Do env netns Some toRun s1 of
             (r, s2) \<Rightarrow> (r, snd (invoke Call_NsClose (NsClose env netns) s2))))"

subsection \<open>Loading the configuration (lines 63-80)\<close>

definition loadConf :: "('w, 'ns) env \<Rightarrow> bytes \<Rightarrow> error + NetConf" where
  "loadConf env bs =
     (case json_Unmarshal env bs of
        Inl err \<Rightarrow> Inl (LoadNetconfFailed err)
      | Inr n \<Rightarrow> if Master n = [] then Inl MasterRequired else Inr n)"

definition loadNetArgs :: "('w, 'ns) env \<Rightarrow> string \<Rightarrow> error + NetArgs" where
  "loadNetArgs env args =
     (case LoadArgs env args of
        Inl err \<Rightarrow> Inl (ParseArgsFailed args err)
      | Inr nArgs \<Rightarrow> Inr nArgs)"

subsection \<open>\<open>modeFromString\<close> (lines 82-95)\<close>

definition modeFromString :: "string \<Rightarrow> error + MacvlanMode" where
  "modeFromString s =
     (if s = [] \<or> s = ''bridge'' then Inr MACVLAN_MODE_BRIDGE
      else if s = ''private'' then Inr MACVLAN_MODE_PRIVATE
      else if s = ''vepa'' then Inr MACVLAN_MODE_VEPA
      else if s = ''passthru'' then Inr MACVLAN_MODE_PASSTHRU
      else Inl (UnknownMode s))"

subsection \<open>\<open>renameLink\<close> (lines 259-266)\<close>

definition renameLink ::
  "('w, 'ns) env \<Rightarrow> string \<Rightarrow> string \<Rightarrow> 'w exec_state \<Rightarrow> error option \<times> 'w exec_state" where
  "renameLink env curName newName s =
     (case invoke (Call_LinkByName curName) (LinkByName env curName) s of
        (Inl err, s1) \<Rightarrow> (Some err, s1)
      | (Inr link, s1) \<Rightarrow>
          invoke (Call_LinkSetName link newName) (LinkSetName env link newName) s1)"

subsection \<open>\<open>createMacvlan\<close> (lines 97-145)\<close>

text \<open>
  The closure handed to \<^verbatim>\<open>netns.Do\<close> (lines 129-144). \<^verbatim>\<open>_ = netlink.LinkDel(mv)\<close>
  drops what \<open>LinkDel\<close> returns and keeps the world it leaves.
\<close>

definition createMacvlan_inNs ::
  "('w, 'ns) env \<Rightarrow> Macvlan \<Rightarrow> string \<Rightarrow> string \<Rightarrow> 'w exec_state \<Rightarrow>
   error option \<times> 'w exec_state" where
  "createMacvlan_inNs env mv tmpName ifName s =
     (let ipv4SysctlValueName = ''net.ipv4.conf.'' @ tmpName @ ''.proxy_arp'' in
      case invoke (Call_Sysctl ipv4SysctlValueName ''1'') (Sysctl env ipv4SysctlValueName ''1'') s of
        (Inl err, s1) \<Rightarrow>
          (case invoke (Call_LinkDel mv) (LinkDel env mv) s1 of
             (_, s2) \<Rightarrow> (Some (ProxyArpFailed tmpName err), s2))
      | (Inr _, s1) \<Rightarrow>
          (case renameLink env tmpName ifName s1 of
             (Some err, s2) \<Rightarrow>
               (case invoke (Call_LinkDel mv) (LinkDel env mv) s2 of
                  (_, s3) \<Rightarrow> (Some (RenameFailed ifName err), s3))
           | (None, s2) \<Rightarrow> (None, s2)))"

definition createMacvlan ::
  "('w, 'ns) env \<Rightarrow> NetConf \<Rightarrow> string \<Rightarrow> 'ns \<Rightarrow> 'w exec_state \<Rightarrow>
   error option \<times> 'w exec_state" where
  "createMacvlan env conf ifName netns s =
     (case modeFromString (Mode conf) of
        Inl err \<Rightarrow> (Some err, s)
      | Inr mode \<Rightarrow>
     (case invoke (Call_LinkByName (Master conf)) (LinkByName env (Master conf)) s of
        (Inl err, s1) \<Rightarrow> (Some (MasterLookupFailed (Master conf) err), s1)
      | (Inr m, s1) \<Rightarrow>
     (case invoke Call_RandomVethName (RandomVethName env) s1 of
        (Inl err, s2) \<Rightarrow> (Some err, s2)
      | (Inr tmpName, s2) \<Rightarrow>
     (let mv = \<lparr>Macvlan_LinkAttrs =
                  \<lparr>Index = 0, Link_MTU = MTU conf, Link_Name = tmpName,
                   ParentIndex = Index m, Namespace = Some (NsFd (Fd env netns))\<rparr>,
                Macvlan_Mode = mode\<rparr> in
      case invoke (Call_LinkAdd mv) (LinkAdd env mv) s2 of
        (Some err, s3) \<Rightarrow> (Some (LinkCreateFailed err), s3)
      | (None, s3) \<Rightarrow> Do env netns Some (createMacvlan_inNs env mv tmpName ifName) s3))))"

subsection \<open>\<open>cmdAdd\<close> (lines 147-237)\<close>

text \<open>
  Lines 164-173: create the interface, or reuse the one that is there. An error of
  \<open>setInterfaceDown\<close> is logged and the result is \<^verbatim>\<open>nil\<close> all the same.
\<close>

definition cmdAdd_interface ::
  "('w, 'ns) env \<Rightarrow> CmdArgs \<Rightarrow> NetConf \<Rightarrow> 'ns \<Rightarrow> 'w exec_state \<Rightarrow>
   error option \<times> 'w exec_state" where
  "cmdAdd_interface env args n netns s =
     (case invoke (Call_checkIfContainerInterfaceExists args)
             (checkIfContainerInterfaceExists env args) s of
        (exists, s1) \<Rightarrow>
          if \<not> exists then createMacvlan env n (IfName args) netns s1
          else
            (case invoke (Call_setInterfaceDown args) (setInterfaceDown env args)
                    (logLine (Log_AlreadyHasInterface (IfName args)) s1) of
               (Some err, s2) \<Rightarrow> (None, logLine (Log_SetDownFailed (IfName args) err) s2)
             | (None, s2) \<Rightarrow> (None, s2)))"

text \<open>Lines 184-195: the MAC address to set, \<^verbatim>\<open>macAddressToSet\<close>.\<close>

definition cmdAdd_macAddress ::
  "('w, 'ns) env \<Rightarrow> CmdArgs \<Rightarrow> NetArgs \<Rightarrow> 'w exec_state \<Rightarrow>
   (error + string) \<times> 'w exec_state" where
  "cmdAdd_macAddress env args nArgs s =
     (if MACAddress nArgs \<noteq> [] then
        (Inr (MACAddress nArgs),
         logLine (Log_SettingMAC (ContainerID args) (IfName args) (MACAddress nArgs)) s)
      else
        (case invoke (Call_findMACAddressForContainer (ContainerID args) (RancherContainerUUID nArgs))
                (findMACAddressForContainer env (ContainerID args) (RancherContainerUUID nArgs)) s of
           (Inl err, s1) \<Rightarrow> (Inl err, logLine (Stderr_Print err) s1)
         | (Inr macAddressToSet, s1) \<Rightarrow>
             (Inr macAddressToSet,
              logLine (Log_FoundMAC (ContainerID args) (IfName args) macAddressToSet) s1)))"

text \<open>
  Lines 209-218: the loop over \<^verbatim>\<open>result.IP4.Routes\<close>. It returns the error of the
  first route that makes the loop return, \<open>None\<close> when the loop runs to its end.
\<close>

fun checkRoutes :: "('w, 'ns) env \<Rightarrow> IPNet \<Rightarrow> IP \<Rightarrow> Route list \<Rightarrow> error option" where
  "checkRoutes env defaultNet gateway [] = None"
| "checkRoutes env defaultNet gateway (route # routes) =
     (if IPNet_String env defaultNet = IPNet_String env (Dst route) then
        (if GW route \<noteq> None \<and> \<not> IP_Equal env (GW route) gateway
         then Some (GatewayConflict (GW route))
         else checkRoutes env defaultNet gateway routes)
      else checkRoutes env defaultNet gateway routes)"

text \<open>
  Lines 204-223, the body of \<^verbatim>\<open>if n.IsDefaultGW\<close>: the error it returns, if any, and
  \<^verbatim>\<open>result\<close> as it leaves it.
\<close>

definition cmdAdd_defaultGW :: "('w, 'ns) env \<Rightarrow> Result \<Rightarrow> error option \<times> Result" where
  "cmdAdd_defaultGW env result =
     (case ParseCIDR env ''0.0.0.0/0'' of
        Inl err \<Rightarrow> (Some err, result)
      | Inr (_, defaultNet) \<Rightarrow>
          (case IP4 result of
             None \<Rightarrow> (Some NilPointerDereference, result)
           | Some ip4 \<Rightarrow>
               (case checkRoutes env defaultNet (Gateway ip4) (Routes ip4) of
                  Some err \<Rightarrow> (Some err, result)
                | None \<Rightarrow>
                    (None,
                     result\<lparr>IP4 := Some (ip4\<lparr>Routes :=
                       Routes ip4 @ [\<lparr>Dst = defaultNet, GW = Gateway ip4\<rparr>]\<rparr>)\<rparr>))))"

text \<open>
  The closure handed to \<^verbatim>\<open>netns.Do\<close> (lines 197-229). It writes to the captured
  \<^verbatim>\<open>result\<close>, so it returns \<^verbatim>\<open>result\<close> next to its error.
\<close>

definition cmdAdd_configure ::
  "('w, 'ns) env \<Rightarrow> CmdArgs \<Rightarrow> NetConf \<Rightarrow> string \<Rightarrow> Result \<Rightarrow> 'w exec_state \<Rightarrow>
   (error option \<times> Result) \<times> 'w exec_state" where
  "cmdAdd_configure env args n macAddressToSet result s =
     (case invoke (Call_setInterfaceMacAddress (IfName args) macAddressToSet)
             (setInterfaceMacAddress env (IfName args) macAddressToSet) s of
        (Some err, s1) \<Rightarrow> ((Some (SetMacFailed err), result), s1)
      | (None, s1) \<Rightarrow>
          (case (if IsDefaultGW n then cmdAdd_defaultGW env result else (None, result)) of
             (Some err, result1) \<Rightarrow> ((Some err, result1), s1)
           | (None, result1) \<Rightarrow>
               (case invoke (Call_configureInterface (IfName args) result1)
                       (configureInterface env (IfName args) result1) s1 of
                  (r, s2) \<Rightarrow> ((r, result1), s2))))"

text \<open>Lines 175-236: everything after the interface is there.\<close>

definition cmdAdd_network ::
  "('w, 'ns) env \<Rightarrow> CmdArgs \<Rightarrow> NetConf \<Rightarrow> NetArgs \<Rightarrow> 'ns \<Rightarrow> 'w exec_state \<Rightarrow>
   error option \<times> 'w exec_state" where
  "cmdAdd_network env args n nArgs netns s =
     (case invoke (Call_ExecAdd (IPAM_Type n) (StdinData args))
             (ExecAdd env (IPAM_Type n) (StdinData args)) s of
        (Inl err, s1) \<Rightarrow> (Some err, s1)
      | (Inr result, s1) \<Rightarrow>
          if IP4 result = None then (Some MissingIPv4Config, s1)
          else
            (case cmdAdd_macAddress env args nArgs s1 of
               (Inl err, s2) \<Rightarrow> (Some err, s2)
             | (Inr macAddressToSet, s2) \<Rightarrow>
                 (case Do env netns (\<lambda>err. (Some err, result))
                         (cmdAdd_configure env args n macAddressToSet result) s2 of
                    ((Some err, _), s3) \<Rightarrow> (Some err, s3)
                  | ((None, result1), s3) \<Rightarrow>
                      invoke (Call_Print (result1\<lparr>Result_DNS := NetConf_DNS n\<rparr>))
                        (Result_Print env (result1\<lparr>Result_DNS := NetConf_DNS n\<rparr>)) s3)))"

text \<open>Lines 164-236: what runs between \<^verbatim>\<open>ns.GetNS\<close> and the deferred \<^verbatim>\<open>netns.Close()\<close>.\<close>

definition cmdAdd_body ::
  "('w, 'ns) env \<Rightarrow> CmdArgs \<Rightarrow> NetConf \<Rightarrow> NetArgs \<Rightarrow> 'ns \<Rightarrow> 'w exec_state \<Rightarrow>
   error option \<times> 'w exec_state" where
  "cmdAdd_body env args n nArgs netns s =
     (case cmdAdd_interface env args n netns s of
        (Some err, s1) \<Rightarrow> (Some err, s1)
      | (None, s1) \<Rightarrow> cmdAdd_network env args n nArgs netns s1)"

definition cmdAdd ::
  "('w, 'ns) env \<Rightarrow> CmdArgs \<Rightarrow> 'w exec_state \<Rightarrow> error option \<times> 'w exec_state" where
  "cmdAdd env args s =
     (case loadConf env (StdinData args) of
        Inl err \<Rightarrow> (Some err, s)
      | Inr n \<Rightarrow>
     (case loadNetArgs env (Args args) of
        Inl err \<Rightarrow> (Some err, s)
      | Inr nArgs \<Rightarrow>
     (case invoke (Call_GetNS (Netns args)) (GetNS env (Netns args)) s of
        (Inl err, s1) \<Rightarrow> (Some (OpenNetnsFailed err), s1)
      | (Inr netns, s1) \<Rightarrow>
          (case cmdAdd_body env args n nArgs netns s1 of
             (r, s2) \<Rightarrow> (r, snd (invoke Call_NsClose (NsClose env netns) s2))))))"

subsection \<open>\<open>cmdDel\<close> (lines 239-257)\<close>

definition cmdDel ::
  "('w, 'ns) env \<Rightarrow> CmdArgs \<Rightarrow> 'w exec_state \<Rightarrow> error option \<times> 'w exec_state" where
  "cmdDel env args s =
     (case loadConf env (StdinData args) of
        Inl err \<Rightarrow> (Some err, s)
      | Inr n \<Rightarrow>
     (case invoke (Call_ExecDel (IPAM_Type n) (StdinData args))
             (ExecDel env (IPAM_Type n) (StdinData args)) s of
        (Some err, s1) \<Rightarrow> (Some err, s1)
      | (None, s1) \<Rightarrow>
          if Netns args = [] then (None, s1)
          else WithNetNSPath env (Netns args)
                 (invoke (Call_DelLinkByName (IfName args)) (DelLinkByName env (IfName args))) s1))"

subsection \<open>A small kernel to run the code on\<close>

text \<open>
  A concrete world for evaluating the functions above: the link names of the host
  namespace and of the container's namespace, and which of the two the thread is in.
  \<open>demo_env conf res\<close> is an environment over it whose JSON decoder yields \<open>conf\<close>
  and whose IPAM process answers \<open>res\<close>; links are looked up, renamed and deleted in
  the namespace the thread is in, and a new link is placed in the container's.
\<close>

record kernel =
  host_links :: "string list"
  container_links :: "string list"
  inside :: bool

definition current_links :: "kernel \<Rightarrow> string list" where
  "current_links k = (if inside k then container_links k else host_links k)"

definition set_current_links :: "string list \<Rightarrow> kernel \<Rightarrow> kernel" where
  "set_current_links ls k = (if inside k then k\<lparr>container_links := ls\<rparr> else k\<lparr>host_links := ls\<rparr>)"

definition demo_link :: "string \<Rightarrow> LinkAttrs" where
  "demo_link name =
     \<lparr>Index = 2, Link_MTU = 1500, Link_Name = name, ParentIndex = 0, Namespace = None\<rparr>"

definition demo_default_net :: IPNet where
  "demo_default_net = \<lparr>IPNet_IP = Some [0, 0, 0, 0], IPNet_Mask = Some [0, 0, 0, 0]\<rparr>"

definition demo_env :: "NetConf \<Rightarrow> Result \<Rightarrow> (kernel, nat) env" where
  "demo_env conf res =
     \<lparr>json_Unmarshal = (\<lambda>bs. if bs = [] then Inl (External ''unexpected end of JSON input'')
                              else Inr conf),
      LoadArgs = (\<lambda>a. Inr \<lparr>RancherContainerUUID = ''uuid-1'', LinkMTUOverhead = [],
                           MACAddress = (if a = ''MACAddress=02:42:0a:00:00:05''
                                         then ''02:42:0a:00:00:05'' else [])\<rparr>),
      LinkByName = (\<lambda>name k. (if name \<in> set (current_links k) then Inr (demo_link name)
                               else Inl (External ''Link not found''), k)),
      RandomVethName = (\<lambda>k. (Inr ''veth1a2b3c4d'', k)),
      LinkAdd = (\<lambda>mv k. (None,
                   k\<lparr>container_links := Link_Name (Macvlan_LinkAttrs mv) # container_links k\<rparr>)),
      LinkDel = (\<lambda>mv k. (None,
                   set_current_links
                     (removeAll (Link_Name (Macvlan_LinkAttrs mv)) (current_links k)) k)),
      LinkSetName = (\<lambda>link newName k.
                   if newName \<in> set (current_links k) then (Some (External ''file exists''), k)
                   else (None,
                     set_current_links
                       (map (\<lambda>l. if l = Link_Name link then newName else l) (current_links k)) k)),
      Sysctl = (\<lambda>name v k. (Inr v, k)),
      GetNS = (\<lambda>path k. (if path = ''/proc/42/ns/net'' then Inr 3
                            else Inl (External ''no such file or directory''), k)),
      Fd = int,
      NsClose = (\<lambda>netns k. (None, k)),
      NsEnter = (\<lambda>netns k. (None, k\<lparr>inside := True\<rparr>)),
      NsLeave = (\<lambda>netns k. k\<lparr>inside := False\<rparr>),
      checkIfContainerInterfaceExists = (\<lambda>args k. (IfName args \<in> set (container_links k), k)),
      setInterfaceDown = (\<lambda>args k. (None, k)),
      ExecAdd = (\<lambda>plugin bs k. (Inr res, k)),
      ExecDel = (\<lambda>plugin bs k. (None, k)),
      findMACAddressForContainer = (\<lambda>cid uuid k. (Inr ''02:42:0a:00:00:07'', k)),
      setInterfaceMacAddress = (\<lambda>name mac k. (None, k)),
      ParseCIDR = (\<lambda>c. if c = ''0.0.0.0/0'' then Inr (Some [0, 0, 0, 0], demo_default_net)
                         else Inl (External ''invalid CIDR address'')),
      IPNet_String = (\<lambda>n. if n = demo_default_net then ''0.0.0.0/0'' else ''10.0.0.0/24''),
      IP_Equal = (\<lambda>a b. a = b),
      configureInterface = (\<lambda>name r k. (None, k)),
      Result_Print = (\<lambda>r k. (None, k)),
      DelLinkByName = (\<lambda>name k.
                   if name \<in> set (current_links k)
                   then (None, set_current_links (removeAll name (current_links k)) k)
                   else (Some (External ''Link not found''), k))\<rparr>"

definition demo_dns :: DNS where
  "demo_dns = \<lparr>Nameservers = [''10.0.0.2''], Domain = [], Search = [], Options = []\<rparr>"

definition demo_conf :: "string \<Rightarrow> bool \<Rightarrow> NetConf" where
  "demo_conf mode gw =
     \<lparr>IPAM_Type = ''host-local'', NetConf_DNS = demo_dns, Master = ''eth0'',
      Mode = mode, MTU = 0, IsDefaultGW = gw\<rparr>"

definition demo_net :: IPNet where
  "demo_net = \<lparr>IPNet_IP = Some [10, 0, 0, 0], IPNet_Mask = Some [255, 255, 255, 0]\<rparr>"

definition demo_ip4 :: "Route list \<Rightarrow> IPConfig" where
  "demo_ip4 rs =
     \<lparr>IPConfig_IP = \<lparr>IPNet_IP = Some [10, 0, 0, 5], IPNet_Mask = Some [255, 255, 255, 0]\<rparr>,
      Gateway = Some [10, 0, 0, 1], Routes = rs\<rparr>"

definition demo_result :: "IPConfig option \<Rightarrow> Result" where
  "demo_result c = \<lparr>IP4 = c, IP6 = None, Result_DNS = \<lparr>Nameservers = [], Domain = [], Search = [], Options = []\<rparr>\<rparr>"

definition demo_args :: "string \<Rightarrow> string \<Rightarrow> CmdArgs" where
  "demo_args nspath a =
     \<lparr>ContainerID = ''c42'', Netns = nspath, IfName = ''eth1'', Args = a, StdinData = [123, 125]\<rparr>"

definition demo_state :: "string list \<Rightarrow> kernel exec_state" where
  "demo_state cl = \<lparr>world = \<lparr>host_links = [''lo'', ''eth0''], container_links = cl, inside = False\<rparr>,
                    calls = []\<rparr>"

text \<open>
  The same environment with a kernel that refuses both the proxy-ARP knob and the
  deletion of a link.
\<close>

definition demo_env_no_rollback :: "NetConf \<Rightarrow> Result \<Rightarrow> (kernel, nat) env" where
  "demo_env_no_rollback conf res =
     (demo_env conf res)
       \<lparr>LinkDel := (\<lambda>mv k. (Some (External ''operation not permitted''), k)),
        Sysctl := (\<lambda>name v k. (Inl (External ''permission denied''), k))\<rparr>"

section \<open>Properties\<close>

text \<open>The definitions a concrete run unfolds.\<close>

lemmas demo_defs =
  demo_env_def demo_conf_def demo_result_def demo_ip4_def demo_args_def demo_state_def
  demo_default_net_def demo_net_def demo_dns_def demo_link_def current_links_def
  set_current_links_def demo_env_no_rollback_def

lemmas code_defs =
  cmdAdd_def cmdAdd_body_def cmdAdd_network_def cmdAdd_configure_def cmdAdd_defaultGW_def
  cmdAdd_macAddress_def cmdAdd_interface_def createMacvlan_def createMacvlan_inNs_def
  renameLink_def modeFromString_def loadConf_def loadNetArgs_def cmdDel_def WithNetNSPath_def
  Do_def invoke_def logLine_def Let_def

subsection \<open>The default-gateway policy (lines 203-226)\<close>

text \<open>
  The loop returns nothing exactly when no route with the default destination has a
  gateway that is set and differs from the IPAM gateway; what it returns otherwise is
  the conflict of such a route.
\<close>

lemma checkRoutes_None_iff:
  "checkRoutes env defaultNet gateway routes = None \<longleftrightarrow>
     (\<forall>r \<in> set routes. IPNet_String env (Dst r) = IPNet_String env defaultNet \<longrightarrow>
        GW r = None \<or> IP_Equal env (GW r) gateway)"
  by (induction routes) auto

lemma checkRoutes_Some:
  "checkRoutes env defaultNet gateway routes = Some err \<Longrightarrow>
     \<exists>r \<in> set routes. err = GatewayConflict (GW r) \<and>
        IPNet_String env (Dst r) = IPNet_String env defaultNet \<and>
        GW r \<noteq> None \<and> \<not> IP_Equal env (GW r) gateway"
  by (induction routes) (auto split: if_splits)

lemma defaultGW_no_conflict:
  assumes cidr: "ParseCIDR env ''0.0.0.0/0'' = Inr (ip0, defaultNet)"
    and ip4: "IP4 result = Some ip4"
    and ok: "checkRoutes env defaultNet (Gateway ip4) (Routes ip4) = None"
  shows "cmdAdd_defaultGW env result =
           (None, result\<lparr>IP4 := Some (ip4\<lparr>Routes :=
                     Routes ip4 @ [\<lparr>Dst = defaultNet, GW = Gateway ip4\<rparr>]\<rparr>)\<rparr>)"
  using cidr ip4 ok by (simp add: cmdAdd_defaultGW_def)

lemma configure_no_conflict:
  assumes gw: "IsDefaultGW n"
    and mac: "setInterfaceMacAddress env (IfName args) macAddressToSet (world s) = (None, w1)"
    and block: "cmdAdd_defaultGW env result = (None, result1)"
    and conf: "configureInterface env (IfName args) result1 w1 = (r, w2)"
  shows "cmdAdd_configure env args n macAddressToSet result s =
           ((r, result1),
            \<lparr>world = w2,
             calls = calls s @ [Call_setInterfaceMacAddress (IfName args) macAddressToSet,
                                Call_configureInterface (IfName args) result1]\<rparr>)"
  using gw mac block conf by (simp add: cmdAdd_configure_def invoke_def)

text \<open>
  Claim C1. With \<^verbatim>\<open>isDefaultGateway\<close> set, when the IPv4 route list of the IPAM
  result holds a route whose destination prints as the default network \<^verbatim>\<open>0.0.0.0/0\<close>
  and whose gateway is not nil and not equal to the IPAM gateway, the gateway block
  fails with \<open>GatewayConflict\<close> (of such a route's gateway) and leaves the result, so
  also its route list, as it was; the configuring closure, once the MAC address is
  set, returns that error without having called \<open>configureInterface\<close>.
\<close>

theorem defaultGW_conflict:
  assumes gw: "IsDefaultGW n"
    and mac: "setInterfaceMacAddress env (IfName args) macAddressToSet (world s) = (None, w1)"
    and cidr: "ParseCIDR env ''0.0.0.0/0'' = Inr (ip0, defaultNet)"
    and ip4: "IP4 result = Some ip4"
    and route: "route \<in> set (Routes ip4)"
    and dst: "IPNet_String env (Dst route) = IPNet_String env defaultNet"
    and nonnil: "GW route \<noteq> None"
    and differs: "\<not> IP_Equal env (GW route) (Gateway ip4)"
  shows "\<exists>r \<in> set (Routes ip4).
           IPNet_String env (Dst r) = IPNet_String env defaultNet \<and>
           GW r \<noteq> None \<and> \<not> IP_Equal env (GW r) (Gateway ip4) \<and>
           cmdAdd_defaultGW env result = (Some (GatewayConflict (GW r)), result) \<and>
           cmdAdd_configure env args n macAddressToSet result s =
             ((Some (GatewayConflict (GW r)), result),
              \<lparr>world = w1,
               calls = calls s @ [Call_setInterfaceMacAddress (IfName args) macAddressToSet]\<rparr>)"
proof -
  have "checkRoutes env defaultNet (Gateway ip4) (Routes ip4) \<noteq> None"
    using route dst nonnil differs by (auto simp: checkRoutes_None_iff)
  then obtain err where err: "checkRoutes env defaultNet (Gateway ip4) (Routes ip4) = Some err"
    by blast
  from checkRoutes_Some [OF err] obtain r where r: "r \<in> set (Routes ip4)"
    "err = GatewayConflict (GW r)"
    "IPNet_String env (Dst r) = IPNet_String env defaultNet"
    "GW r \<noteq> None" "\<not> IP_Equal env (GW r) (Gateway ip4)"
    by blast
  have block: "cmdAdd_defaultGW env result = (Some (GatewayConflict (GW r)), result)"
    using cidr ip4 err r(2) by (simp add: cmdAdd_defaultGW_def)
  have "cmdAdd_configure env args n macAddressToSet result s =
          ((Some (GatewayConflict (GW r)), result),
           \<lparr>world = w1,
            calls = calls s @ [Call_setInterfaceMacAddress (IfName args) macAddressToSet]\<rparr>)"
    using gw block mac
    by (simp add: cmdAdd_configure_def invoke_def)
  with r block show ?thesis by blast
qed

text \<open>
  A run of C1: the second route is a default route through \<^verbatim>\<open>10.0.0.254\<close> while the
  IPAM gateway is \<^verbatim>\<open>10.0.0.1\<close>.
\<close>

theorem defaultGW_conflict_witness:
  "IsDefaultGW (demo_conf ''bridge'' True) \<and>
   cmdAdd_defaultGW (demo_env (demo_conf ''bridge'' True) (demo_result None))
       (demo_result (Some (demo_ip4 [\<lparr>Dst = demo_net, GW = None\<rparr>,
                                     \<lparr>Dst = demo_default_net, GW = Some [10, 0, 0, 254]\<rparr>]))) =
     (Some (GatewayConflict (Some [10, 0, 0, 254])),
      demo_result (Some (demo_ip4 [\<lparr>Dst = demo_net, GW = None\<rparr>,
                                    \<lparr>Dst = demo_default_net, GW = Some [10, 0, 0, 254]\<rparr>]))) \<and>
   cmdAdd_configure (demo_env (demo_conf ''bridge'' True) (demo_result None))
       (demo_args ''/proc/42/ns/net'' []) (demo_conf ''bridge'' True) ''02:42:0a:00:00:07''
       (demo_result (Some (demo_ip4 [\<lparr>Dst = demo_net, GW = None\<rparr>,
                                     \<lparr>Dst = demo_default_net, GW = Some [10, 0, 0, 254]\<rparr>])))
       (demo_state [''eth1'']) =
     ((Some (GatewayConflict (Some [10, 0, 0, 254])),
       demo_result (Some (demo_ip4 [\<lparr>Dst = demo_net, GW = None\<rparr>,
                                     \<lparr>Dst = demo_default_net, GW = Some [10, 0, 0, 254]\<rparr>]))),
      \<lparr>world = world (demo_state [''eth1'']),
       calls = [Call_setInterfaceMacAddress ''eth1'' ''02:42:0a:00:00:07'']\<rparr>)"
  using defaultGW_conflict [where n = "demo_conf ''bridge'' True"
      and env = "demo_env (demo_conf ''bridge'' True) (demo_result None)"
      and args = "demo_args ''/proc/42/ns/net'' []" and macAddressToSet = "''02:42:0a:00:00:07''"
      and s = "demo_state [''eth1'']" and ?w1.0 = "world (demo_state [''eth1''])"
      and ?ip0.0 = "Some [0, 0, 0, 0]" and defaultNet = demo_default_net
      and result = "demo_result (Some (demo_ip4 [\<lparr>Dst = demo_net, GW = None\<rparr>,
                                     \<lparr>Dst = demo_default_net, GW = Some [10, 0, 0, 254]\<rparr>]))"
      and ?ip4.0 = "demo_ip4 [\<lparr>Dst = demo_net, GW = None\<rparr>,
                            \<lparr>Dst = demo_default_net, GW = Some [10, 0, 0, 254]\<rparr>]"
      and route = "\<lparr>Dst = demo_default_net, GW = Some [10, 0, 0, 254]\<rparr>"]
  by (simp add: demo_defs)

text \<open>
  Claim C4. With \<^verbatim>\<open>isDefaultGateway\<close> set, when no route of the IPAM result has the
  destination \<^verbatim>\<open>0.0.0.0/0\<close>, the route list becomes the old list followed by one
  route, to \<^verbatim>\<open>0.0.0.0/0\<close> through the IPAM gateway, and \<open>configureInterface\<close> is
  called with the result that holds this list.
\<close>

theorem defaultGW_appended:
  assumes gw: "IsDefaultGW n"
    and mac: "setInterfaceMacAddress env (IfName args) macAddressToSet (world s) = (None, w1)"
    and cidr: "ParseCIDR env ''0.0.0.0/0'' = Inr (ip0, defaultNet)"
    and ip4: "IP4 result = Some ip4"
    and nodefault: "\<forall>r \<in> set (Routes ip4). IPNet_String env (Dst r) \<noteq> IPNet_String env defaultNet"
    and result1: "result1 = result\<lparr>IP4 := Some (ip4\<lparr>Routes :=
                     Routes ip4 @ [\<lparr>Dst = defaultNet, GW = Gateway ip4\<rparr>]\<rparr>)\<rparr>"
    and conf: "configureInterface env (IfName args) result1 w1 = (r, w2)"
  shows "cmdAdd_defaultGW env result = (None, result1) \<and>
         cmdAdd_configure env args n macAddressToSet result s =
           ((r, result1),
            \<lparr>world = w2,
             calls = calls s @ [Call_setInterfaceMacAddress (IfName args) macAddressToSet,
                                Call_configureInterface (IfName args) result1]\<rparr>)"
proof -
  have "checkRoutes env defaultNet (Gateway ip4) (Routes ip4) = None"
    using nodefault by (simp add: checkRoutes_None_iff)
  then have block: "cmdAdd_defaultGW env result = (None, result1)"
    using defaultGW_no_conflict [OF cidr ip4] result1 by simp
  with configure_no_conflict [OF gw mac block conf] show ?thesis by simp
qed

text \<open>A run of C4: the only route goes to \<^verbatim>\<open>10.0.0.0/24\<close>.\<close>

theorem defaultGW_appended_witness:
  "IsDefaultGW (demo_conf ''bridge'' True) \<and>
   cmdAdd_defaultGW (demo_env (demo_conf ''bridge'' True) (demo_result None))
       (demo_result (Some (demo_ip4 [\<lparr>Dst = demo_net, GW = None\<rparr>]))) =
     (None,
      demo_result (Some (demo_ip4 [\<lparr>Dst = demo_net, GW = None\<rparr>,
                                    \<lparr>Dst = demo_default_net, GW = Some [10, 0, 0, 1]\<rparr>]))) \<and>
   cmdAdd_configure (demo_env (demo_conf ''bridge'' True) (demo_result None))
       (demo_args ''/proc/42/ns/net'' []) (demo_conf ''bridge'' True) ''02:42:0a:00:00:07''
       (demo_result (Some (demo_ip4 [\<lparr>Dst = demo_net, GW = None\<rparr>])))
       (demo_state [''eth1'']) =
     ((None,
       demo_result (Some (demo_ip4 [\<lparr>Dst = demo_net, GW = None\<rparr>,
                                     \<lparr>Dst = demo_default_net, GW = Some [10, 0, 0, 1]\<rparr>]))),
      \<lparr>world = world (demo_state [''eth1'']),
       calls = [Call_setInterfaceMacAddress ''eth1'' ''02:42:0a:00:00:07'',
                Call_configureInterface ''eth1''
                  (demo_result (Some (demo_ip4 [\<lparr>Dst = demo_net, GW = None\<rparr>,
                     \<lparr>Dst = demo_default_net, GW = Some [10, 0, 0, 1]\<rparr>])))]\<rparr>)"
  using defaultGW_appended [where n = "demo_conf ''bridge'' True"
      and env = "demo_env (demo_conf ''bridge'' True) (demo_result None)"
      and args = "demo_args ''/proc/42/ns/net'' []" and macAddressToSet = "''02:42:0a:00:00:07''"
      and s = "demo_state [''eth1'']" and ?w1.0 = "world (demo_state [''eth1''])"
      and ?ip0.0 = "Some [0, 0, 0, 0]" and defaultNet = demo_default_net
      and result = "demo_result (Some (demo_ip4 [\<lparr>Dst = demo_net, GW = None\<rparr>]))"
      and ?ip4.0 = "demo_ip4 [\<lparr>Dst = demo_net, GW = None\<rparr>]"
      and ?result1.0 = "demo_result (Some (demo_ip4 [\<lparr>Dst = demo_net, GW = None\<rparr>,
                                    \<lparr>Dst = demo_default_net, GW = Some [10, 0, 0, 1]\<rparr>]))"
      and r = None and ?w2.0 = "world (demo_state [''eth1''])"]
  by (simp add: demo_defs)

text \<open>
  Claim C10, as the code has it. With \<^verbatim>\<open>isDefaultGateway\<close> set, when the route
  list already holds a default route and the gateway of every default route in it is
  nil or equal to the IPAM gateway, the default route through the IPAM gateway is
  appended all the same: the list handed to \<open>configureInterface\<close> holds at least two
  routes with the default destination.
\<close>

theorem defaultGW_duplicated:
  assumes gw: "IsDefaultGW n"
    and mac: "setInterfaceMacAddress env (IfName args) macAddressToSet (world s) = (None, w1)"
    and cidr: "ParseCIDR env ''0.0.0.0/0'' = Inr (ip0, defaultNet)"
    and ip4: "IP4 result = Some ip4"
    and route: "route \<in> set (Routes ip4)"
    and dst: "IPNet_String env (Dst route) = IPNet_String env defaultNet"
    and noconflict: "\<forall>r \<in> set (Routes ip4).
        IPNet_String env (Dst r) = IPNet_String env defaultNet \<longrightarrow>
        GW r = None \<or> IP_Equal env (GW r) (Gateway ip4)"
    and applied: "applied = Routes ip4 @ [\<lparr>Dst = defaultNet, GW = Gateway ip4\<rparr>]"
    and result1: "result1 = result\<lparr>IP4 := Some (ip4\<lparr>Routes := applied\<rparr>)\<rparr>"
    and conf: "configureInterface env (IfName args) result1 w1 = (r, w2)"
  shows "cmdAdd_defaultGW env result = (None, result1) \<and>
         cmdAdd_configure env args n macAddressToSet result s =
           ((r, result1),
            \<lparr>world = w2,
             calls = calls s @ [Call_setInterfaceMacAddress (IfName args) macAddressToSet,
                                Call_configureInterface (IfName args) result1]\<rparr>) \<and>
         2 \<le> length (filter (\<lambda>r. IPNet_String env (Dst r) = IPNet_String env defaultNet) applied)"
proof -
  have "checkRoutes env defaultNet (Gateway ip4) (Routes ip4) = None"
    using noconflict by (simp add: checkRoutes_None_iff)
  then have block: "cmdAdd_defaultGW env result = (None, result1)"
    using defaultGW_no_conflict [OF cidr ip4] result1 applied by simp
  have "filter (\<lambda>r. IPNet_String env (Dst r) = IPNet_String env defaultNet) (Routes ip4) \<noteq> []"
    using route dst by (auto simp: filter_empty_conv)
  then have "1 \<le> length (filter (\<lambda>r. IPNet_String env (Dst r) = IPNet_String env defaultNet) (Routes ip4))"
    by (simp add: Suc_le_eq)
  then have two: "2 \<le> length (filter (\<lambda>r. IPNet_String env (Dst r) = IPNet_String env defaultNet) applied)"
    using applied by simp
  from configure_no_conflict [OF gw mac block conf] block two show ?thesis by simp
qed

text \<open>
  A run of C10: a default route without gateway and one through the IPAM gateway are
  there already; a third default route is appended.
\<close>

theorem defaultGW_duplicated_witness:
  "IsDefaultGW (demo_conf ''bridge'' True) \<and>
   cmdAdd_defaultGW (demo_env (demo_conf ''bridge'' True) (demo_result None))
       (demo_result (Some (demo_ip4 [\<lparr>Dst = demo_default_net, GW = None\<rparr>,
                                     \<lparr>Dst = demo_default_net, GW = Some [10, 0, 0, 1]\<rparr>]))) =
     (None,
      demo_result (Some (demo_ip4 [\<lparr>Dst = demo_default_net, GW = None\<rparr>,
                                    \<lparr>Dst = demo_default_net, GW = Some [10, 0, 0, 1]\<rparr>,
                                    \<lparr>Dst = demo_default_net, GW = Some [10, 0, 0, 1]\<rparr>]))) \<and>
   2 \<le> length (filter
          (\<lambda>r. IPNet_String (demo_env (demo_conf ''bridge'' True) (demo_result None)) (Dst r) =
                IPNet_String (demo_env (demo_conf ''bridge'' True) (demo_result None)) demo_default_net)
          [\<lparr>Dst = demo_default_net, GW = None\<rparr>,
           \<lparr>Dst = demo_default_net, GW = Some [10, 0, 0, 1]\<rparr>,
           \<lparr>Dst = demo_default_net, GW = Some [10, 0, 0, 1]\<rparr>])"
  using defaultGW_duplicated [where n = "demo_conf ''bridge'' True"
      and env = "demo_env (demo_conf ''bridge'' True) (demo_result None)"
      and args = "demo_args ''/proc/42/ns/net'' []" and macAddressToSet = "''02:42:0a:00:00:07''"
      and s = "demo_state [''eth1'']" and ?w1.0 = "world (demo_state [''eth1''])"
      and ?ip0.0 = "Some [0, 0, 0, 0]" and defaultNet = demo_default_net
      and result = "demo_result (Some (demo_ip4 [\<lparr>Dst = demo_default_net, GW = None\<rparr>,
                                     \<lparr>Dst = demo_default_net, GW = Some [10, 0, 0, 1]\<rparr>]))"
      and ?ip4.0 = "demo_ip4 [\<lparr>Dst = demo_default_net, GW = None\<rparr>,
                            \<lparr>Dst = demo_default_net, GW = Some [10, 0, 0, 1]\<rparr>]"
      and route = "\<lparr>Dst = demo_default_net, GW = None\<rparr>"
      and applied = "[\<lparr>Dst = demo_default_net, GW = None\<rparr>,
           \<lparr>Dst = demo_default_net, GW = Some [10, 0, 0, 1]\<rparr>,
           \<lparr>Dst = demo_default_net, GW = Some [10, 0, 0, 1]\<rparr>]"
      and ?result1.0 = "demo_result (Some (demo_ip4 [\<lparr>Dst = demo_default_net, GW = None\<rparr>,
                                    \<lparr>Dst = demo_default_net, GW = Some [10, 0, 0, 1]\<rparr>,
                                    \<lparr>Dst = demo_default_net, GW = Some [10, 0, 0, 1]\<rparr>]))"
      and r = None and ?w2.0 = "world (demo_state [''eth1''])"]
  by (simp add: demo_defs)

text \<open>
  Claim C10 as it is stated, for any list that holds a default route with a nil or
  equal gateway, does not hold when the list holds a conflicting default route as
  well: with a default route without gateway followed by one through
  \<^verbatim>\<open>10.0.0.254\<close>, and the IPAM gateway \<^verbatim>\<open>10.0.0.1\<close>, the loop returns the conflict
  of the second route, nothing is appended and \<open>configureInterface\<close> is not called.
\<close>

theorem defaultGW_mixed_counterexample:
  "IsDefaultGW (demo_conf ''bridge'' True) \<and>
   \<lparr>Dst = demo_default_net, GW = None\<rparr> \<in>
     set [\<lparr>Dst = demo_default_net, GW = None\<rparr>,
          \<lparr>Dst = demo_default_net, GW = Some [10, 0, 0, 254]\<rparr>] \<and>
   IPNet_String (demo_env (demo_conf ''bridge'' True) (demo_result None)) demo_default_net =
     ''0.0.0.0/0'' \<and>
   cmdAdd_defaultGW (demo_env (demo_conf ''bridge'' True) (demo_result None))
       (demo_result (Some (demo_ip4 [\<lparr>Dst = demo_default_net, GW = None\<rparr>,
                                     \<lparr>Dst = demo_default_net, GW = Some [10, 0, 0, 254]\<rparr>]))) =
     (Some (GatewayConflict (Some [10, 0, 0, 254])),
      demo_result (Some (demo_ip4 [\<lparr>Dst = demo_default_net, GW = None\<rparr>,
                                    \<lparr>Dst = demo_default_net, GW = Some [10, 0, 0, 254]\<rparr>]))) \<and>
   cmdAdd_configure (demo_env (demo_conf ''bridge'' True) (demo_result None))
       (demo_args ''/proc/42/ns/net'' []) (demo_conf ''bridge'' True) ''02:42:0a:00:00:07''
       (demo_result (Some (demo_ip4 [\<lparr>Dst = demo_default_net, GW = None\<rparr>,
                                     \<lparr>Dst = demo_default_net, GW = Some [10, 0, 0, 254]\<rparr>])))
       (demo_state [''eth1'']) =
     ((Some (GatewayConflict (Some [10, 0, 0, 254])),
       demo_result (Some (demo_ip4 [\<lparr>Dst = demo_default_net, GW = None\<rparr>,
                                     \<lparr>Dst = demo_default_net, GW = Some [10, 0, 0, 254]\<rparr>]))),
      \<lparr>world = world (demo_state [''eth1'']),
       calls = [Call_setInterfaceMacAddress ''eth1'' ''02:42:0a:00:00:07'']\<rparr>)"
  by (simp add: demo_defs cmdAdd_defaultGW_def cmdAdd_configure_def invoke_def)

subsection \<open>The ADD command\<close>

text \<open>
  Claim C6. In an ADD invocation that reaches the IPAM step (configuration and
  arguments loaded, namespace opened, interface created or reused), an error of the
  IPAM process is the command's error, and a result without IPv4 configuration makes
  the command fail with \<open>MissingIPv4Config\<close>; in both cases nothing is called
  afterwards but the deferred close of the namespace handle.
\<close>

theorem cmdAdd_ipam_result:
  assumes conf: "loadConf env (StdinData args) = Inr n"
    and nargs: "loadNetArgs env (Args args) = Inr nArgs"
    and getns: "GetNS env (Netns args) (world s) = (Inr netns, w1)"
    and iface: "cmdAdd_interface env args n netns
                  \<lparr>world = w1, calls = calls s @ [Call_GetNS (Netns args)]\<rparr> = (None, s2)"
    and ipam: "ExecAdd env (IPAM_Type n) (StdinData args) (world s2) = (r, w3)"
    and final: "s4 = \<lparr>world = snd (NsClose env netns w3),
                      calls = calls s2 @ [Call_ExecAdd (IPAM_Type n) (StdinData args), Call_NsClose]\<rparr>"
  shows "(\<forall>err. r = Inl err \<longrightarrow> cmdAdd env args s = (Some err, s4)) \<and>
         (\<forall>result. r = Inr result \<and> IP4 result = None \<longrightarrow>
            cmdAdd env args s = (Some MissingIPv4Config, s4))"
  using conf nargs getns iface ipam final
  by (simp add: cmdAdd_def cmdAdd_body_def cmdAdd_network_def invoke_def split: prod.splits)

text \<open>
  Two runs of C6 on a container that has its interface already: an IPAM process that
  answers without IPv4 configuration, and one that fails.
\<close>

theorem cmdAdd_ipam_result_witness:
  "cmdAdd_interface (demo_env (demo_conf ''bridge'' True) (demo_result None))
       (demo_args ''/proc/42/ns/net'' []) (demo_conf ''bridge'' True) 3
       \<lparr>world = world (demo_state [''eth1'']), calls = [Call_GetNS ''/proc/42/ns/net'']\<rparr> =
     (None,
      \<lparr>world = world (demo_state [''eth1'']),
       calls = [Call_GetNS ''/proc/42/ns/net'',
                Call_checkIfContainerInterfaceExists (demo_args ''/proc/42/ns/net'' []),
                Log_AlreadyHasInterface ''eth1'',
                Call_setInterfaceDown (demo_args ''/proc/42/ns/net'' [])]\<rparr>) \<and>
   cmdAdd (demo_env (demo_conf ''bridge'' True) (demo_result None))
       (demo_args ''/proc/42/ns/net'' []) (demo_state [''eth1'']) =
     (Some MissingIPv4Config,
      \<lparr>world = world (demo_state [''eth1'']),
       calls = [Call_GetNS ''/proc/42/ns/net'',
                Call_checkIfContainerInterfaceExists (demo_args ''/proc/42/ns/net'' []),
                Log_AlreadyHasInterface ''eth1'',
                Call_setInterfaceDown (demo_args ''/proc/42/ns/net'' []),
                Call_ExecAdd ''host-local'' [123, 125], Call_NsClose]\<rparr>) \<and>
   cmdAdd ((demo_env (demo_conf ''bridge'' True) (demo_result None))
             \<lparr>ExecAdd := (\<lambda>plugin bs k. (Inl (External ''no IP addresses available''), k))\<rparr>)
       (demo_args ''/proc/42/ns/net'' []) (demo_state [''eth1'']) =
     (Some (External ''no IP addresses available''),
      \<lparr>world = world (demo_state [''eth1'']),
       calls = [Call_GetNS ''/proc/42/ns/net'',
                Call_checkIfContainerInterfaceExists (demo_args ''/proc/42/ns/net'' []),
                Log_AlreadyHasInterface ''eth1'',
                Call_setInterfaceDown (demo_args ''/proc/42/ns/net'' []),
                Call_ExecAdd ''host-local'' [123, 125], Call_NsClose]\<rparr>)"
proof -
  let ?n = "demo_conf ''bridge'' True"
  let ?args = "demo_args ''/proc/42/ns/net'' []"
  let ?s = "demo_state [''eth1'']"
  let ?s2 = "\<lparr>world = world ?s,
       calls = [Call_GetNS ''/proc/42/ns/net'',
                Call_checkIfContainerInterfaceExists ?args,
                Log_AlreadyHasInterface ''eth1'',
                Call_setInterfaceDown ?args]\<rparr>"
  let ?nArgs = "\<lparr>RancherContainerUUID = ''uuid-1'', LinkMTUOverhead = [], MACAddress = []\<rparr>"
  let ?env = "demo_env ?n (demo_result None)"
  let ?env' = "?env\<lparr>ExecAdd := (\<lambda>plugin bs k. (Inl (External ''no IP addresses available''), k))\<rparr>"
  have missing: "cmdAdd ?env ?args ?s =
     (Some MissingIPv4Config,
      \<lparr>world = world ?s, calls = calls ?s2 @ [Call_ExecAdd ''host-local'' [123, 125], Call_NsClose]\<rparr>)"
    using cmdAdd_ipam_result [where env = ?env and args = ?args and n = ?n and nArgs = ?nArgs
        and s = ?s and netns = 3 and ?w1.0 = "world ?s" and ?s2.0 = ?s2
        and r = "Inr (demo_result None)" and ?w3.0 = "world ?s"
        and ?s4.0 = "\<lparr>world = world ?s,
            calls = calls ?s2 @ [Call_ExecAdd ''host-local'' [123, 125], Call_NsClose]\<rparr>"]
    by (simp add: demo_defs loadConf_def loadNetArgs_def cmdAdd_interface_def invoke_def logLine_def)
  have failed: "cmdAdd ?env' ?args ?s =
     (Some (External ''no IP addresses available''),
      \<lparr>world = world ?s, calls = calls ?s2 @ [Call_ExecAdd ''host-local'' [123, 125], Call_NsClose]\<rparr>)"
    using cmdAdd_ipam_result [where env = ?env' and args = ?args and n = ?n and nArgs = ?nArgs
        and s = ?s and netns = 3 and ?w1.0 = "world ?s" and ?s2.0 = ?s2
        and r = "Inl (External ''no IP addresses available'')" and ?w3.0 = "world ?s"
        and ?s4.0 = "\<lparr>world = world ?s,
            calls = calls ?s2 @ [Call_ExecAdd ''host-local'' [123, 125], Call_NsClose]\<rparr>"]
    by (simp add: demo_defs loadConf_def loadNetArgs_def cmdAdd_interface_def invoke_def logLine_def)
  have iface: "cmdAdd_interface ?env ?args ?n 3
       \<lparr>world = world ?s, calls = [Call_GetNS ''/proc/42/ns/net'']\<rparr> = (None, ?s2)"
    by (simp add: demo_defs cmdAdd_interface_def invoke_def logLine_def)
  from missing failed iface show ?thesis by simp
qed

text \<open>
  Replacing the MAC lookup collaborator of an environment changes nothing in the
  functions that do not call it.
\<close>

lemma renameLink_lookup_indep:
  "renameLink (env\<lparr>findMACAddressForContainer := f\<rparr>) = renameLink env"
  by (simp add: fun_eq_iff renameLink_def cong: prod.case_cong sum.case_cong)

lemma Do_lookup_indep:
  "Do (env\<lparr>findMACAddressForContainer := f\<rparr>) = Do env"
  by (simp add: fun_eq_iff Do_def cong: prod.case_cong option.case_cong)

lemma createMacvlan_inNs_lookup_indep:
  "createMacvlan_inNs (env\<lparr>findMACAddressForContainer := f\<rparr>) = createMacvlan_inNs env"
  by (simp add: fun_eq_iff createMacvlan_inNs_def renameLink_lookup_indep Let_def
        cong: prod.case_cong sum.case_cong option.case_cong if_cong)

lemma createMacvlan_lookup_indep:
  "createMacvlan (env\<lparr>findMACAddressForContainer := f\<rparr>) = createMacvlan env"
  by (simp add: fun_eq_iff createMacvlan_def createMacvlan_inNs_lookup_indep Do_lookup_indep Let_def
        cong: prod.case_cong sum.case_cong option.case_cong if_cong)

lemma cmdAdd_interface_lookup_indep:
  "cmdAdd_interface (env\<lparr>findMACAddressForContainer := f\<rparr>) = cmdAdd_interface env"
  by (simp add: fun_eq_iff cmdAdd_interface_def createMacvlan_lookup_indep
        cong: prod.case_cong sum.case_cong option.case_cong if_cong)

lemma checkRoutes_lookup_indep:
  "checkRoutes (env\<lparr>findMACAddressForContainer := f\<rparr>) defaultNet gateway routes =
   checkRoutes env defaultNet gateway routes"
  by (induction routes) simp_all

lemma cmdAdd_defaultGW_lookup_indep:
  "cmdAdd_defaultGW (env\<lparr>findMACAddressForContainer := f\<rparr>) = cmdAdd_defaultGW env"
  by (simp add: fun_eq_iff cmdAdd_defaultGW_def checkRoutes_lookup_indep
        cong: prod.case_cong sum.case_cong option.case_cong if_cong)

lemma cmdAdd_configure_lookup_indep:
  "cmdAdd_configure (env\<lparr>findMACAddressForContainer := f\<rparr>) = cmdAdd_configure env"
  by (simp add: fun_eq_iff cmdAdd_configure_def cmdAdd_defaultGW_lookup_indep
        cong: prod.case_cong sum.case_cong option.case_cong if_cong)

lemma macAddress_explicit:
  "MACAddress nArgs \<noteq> [] \<Longrightarrow>
   cmdAdd_macAddress env args nArgs s =
     (Inr (MACAddress nArgs),
      \<lparr>world = world s,
       calls = calls s @ [Log_SettingMAC (ContainerID args) (IfName args) (MACAddress nArgs)]\<rparr>)"
  by (simp add: cmdAdd_macAddress_def logLine_def)

lemma macAddress_lookup:
  "MACAddress nArgs = [] \<Longrightarrow>
   findMACAddressForContainer env (ContainerID args) (RancherContainerUUID nArgs) (world s) = (r, w1) \<Longrightarrow>
   cmdAdd_macAddress env args nArgs s =
     (r, \<lparr>world = w1,
          calls = calls s @
            [Call_findMACAddressForContainer (ContainerID args) (RancherContainerUUID nArgs),
             (case r of Inl err \<Rightarrow> Stderr_Print err
              | Inr mac \<Rightarrow> Log_FoundMAC (ContainerID args) (IfName args) mac)]\<rparr>)"
  by (simp add: cmdAdd_macAddress_def logLine_def invoke_def split: sum.splits)

lemma cmdAdd_explicit_lookup_indep:
  assumes "loadNetArgs env (Args args) = Inr nArgs" and "MACAddress nArgs \<noteq> []"
  shows "cmdAdd (env\<lparr>findMACAddressForContainer := f\<rparr>) args s = cmdAdd env args s"
proof -
  have mac: "cmdAdd_macAddress (env\<lparr>findMACAddressForContainer := f\<rparr>) args nArgs =
             cmdAdd_macAddress env args nArgs"
    using assms(2) by (simp add: fun_eq_iff cmdAdd_macAddress_def)
  have net: "cmdAdd_network (env\<lparr>findMACAddressForContainer := f\<rparr>) args n nArgs netns =
             cmdAdd_network env args n nArgs netns" for n netns
    by (simp add: fun_eq_iff cmdAdd_network_def mac Do_lookup_indep cmdAdd_configure_lookup_indep
          cong: prod.case_cong sum.case_cong option.case_cong if_cong)
  have body: "cmdAdd_body (env\<lparr>findMACAddressForContainer := f\<rparr>) args n nArgs netns =
              cmdAdd_body env args n nArgs netns" for n netns
    by (simp add: fun_eq_iff cmdAdd_body_def net cmdAdd_interface_lookup_indep
          cong: prod.case_cong sum.case_cong option.case_cong if_cong)
  have args: "loadNetArgs (env\<lparr>findMACAddressForContainer := f\<rparr>) (Args args) = Inr nArgs"
    using assms(1) by (simp add: loadNetArgs_def)
  have conf: "loadConf (env\<lparr>findMACAddressForContainer := f\<rparr>) = loadConf env"
    by (simp add: fun_eq_iff loadConf_def)
  show ?thesis
    using assms(1) args
    by (simp add: cmdAdd_def conf body cong: prod.case_cong sum.case_cong option.case_cong if_cong)
qed

lemma configure_first_call:
  "\<exists>cs. calls (snd (cmdAdd_configure env args n mac result s)) =
          calls s @ Call_setInterfaceMacAddress (IfName args) mac # cs"
  by (auto simp: cmdAdd_configure_def invoke_def split: prod.splits option.splits)

lemma network_after_mac:
  assumes ipam: "ExecAdd env (IPAM_Type n) (StdinData args) (world s) = (Inr result, w1)"
    and ip4: "IP4 result \<noteq> None"
    and mac: "cmdAdd_macAddress env args nArgs
                \<lparr>world = w1, calls = calls s @ [Call_ExecAdd (IPAM_Type n) (StdinData args)]\<rparr> =
              (Inr mac, s2)"
    and enter: "NsEnter env netns (world s2) = (None, w3)"
  shows "\<exists>cs. calls (snd (cmdAdd_network env args n nArgs netns s)) =
           calls s2 @ [Call_NsEnter, Call_setInterfaceMacAddress (IfName args) mac] @ cs"
proof -
  let ?s3 = "\<lparr>world = w3, calls = calls s2 @ [Call_NsEnter]\<rparr>"
  obtain r result1 s4 where run: "cmdAdd_configure env args n mac result ?s3 = ((r, result1), s4)"
    by (metis prod.exhaust)
  from configure_first_call [of env args n mac result ?s3] run
  obtain cs where cs: "calls s4 = calls s2 @ [Call_NsEnter, Call_setInterfaceMacAddress (IfName args) mac] @ cs"
    by auto
  show ?thesis
    using ipam ip4 mac enter run cs
    by (cases r) (auto simp: cmdAdd_network_def Do_def invoke_def split: prod.splits)
qed

lemma network_mac_error:
  assumes ipam: "ExecAdd env (IPAM_Type n) (StdinData args) (world s) = (Inr result, w1)"
    and ip4: "IP4 result \<noteq> None"
    and mac: "cmdAdd_macAddress env args nArgs
                \<lparr>world = w1, calls = calls s @ [Call_ExecAdd (IPAM_Type n) (StdinData args)]\<rparr> =
              (Inl err, s2)"
  shows "cmdAdd_network env args n nArgs netns s = (Some err, s2)"
  using assms by (auto simp: cmdAdd_network_def invoke_def)

text \<open>
  Claim C5. After the IPAM step: a non-empty \<^verbatim>\<open>MACAddress\<close> argument is the MAC
  address to set, the lookup collaborator is not called (the only thing logged is the
  line about the address, and the whole ADD command is the same whatever the lookup
  collaborator is); an empty one makes the code call the lookup with the container id
  and the container UUID argument and take its answer, address or error, as it is. An
  error ends the command with that error; an address is what \<open>setInterfaceMacAddress\<close>
  is called with, right after the namespace is entered.
\<close>

theorem macAddress_resolution:
  assumes ipam: "ExecAdd env (IPAM_Type n) (StdinData args) (world s) = (Inr result, w1)"
    and ip4: "IP4 result \<noteq> None"
    and s1: "s1 = \<lparr>world = w1, calls = calls s @ [Call_ExecAdd (IPAM_Type n) (StdinData args)]\<rparr>"
    and lookup: "findMACAddressForContainer env (ContainerID args) (RancherContainerUUID nArgs) w1 = (found, w2)"
  shows "(MACAddress nArgs \<noteq> [] \<longrightarrow>
            cmdAdd_macAddress env args nArgs s1 =
              (Inr (MACAddress nArgs),
               \<lparr>world = w1,
                calls = calls s1 @
                  [Log_SettingMAC (ContainerID args) (IfName args) (MACAddress nArgs)]\<rparr>) \<and>
            (\<forall>f s0. loadNetArgs env (Args args) = Inr nArgs \<longrightarrow>
               cmdAdd (env\<lparr>findMACAddressForContainer := f\<rparr>) args s0 = cmdAdd env args s0)) \<and>
         (MACAddress nArgs = [] \<longrightarrow>
            cmdAdd_macAddress env args nArgs s1 =
              (found,
               \<lparr>world = w2,
                calls = calls s1 @
                  [Call_findMACAddressForContainer (ContainerID args) (RancherContainerUUID nArgs),
                   (case found of Inl err \<Rightarrow> Stderr_Print err
                    | Inr mac \<Rightarrow> Log_FoundMAC (ContainerID args) (IfName args) mac)]\<rparr>)) \<and>
         (\<forall>err s2. cmdAdd_macAddress env args nArgs s1 = (Inl err, s2) \<longrightarrow>
            cmdAdd_network env args n nArgs netns s = (Some err, s2)) \<and>
         (\<forall>mac s2 w3. cmdAdd_macAddress env args nArgs s1 = (Inr mac, s2) \<and>
            NsEnter env netns (world s2) = (None, w3) \<longrightarrow>
            (\<exists>cs. calls (snd (cmdAdd_network env args n nArgs netns s)) =
               calls s2 @ [Call_NsEnter, Call_setInterfaceMacAddress (IfName args) mac] @ cs))"
proof (intro conjI allI impI)
  assume "MACAddress nArgs \<noteq> []"
  from macAddress_explicit [OF this, of env args s1]
  show "cmdAdd_macAddress env args nArgs s1 =
          (Inr (MACAddress nArgs),
           \<lparr>world = w1,
            calls = calls s1 @
              [Log_SettingMAC (ContainerID args) (IfName args) (MACAddress nArgs)]\<rparr>)"
    using s1 by simp
next
  fix f s0
  assume "MACAddress nArgs \<noteq> []" and "loadNetArgs env (Args args) = Inr nArgs"
  then show "cmdAdd (env\<lparr>findMACAddressForContainer := f\<rparr>) args s0 = cmdAdd env args s0"
    by (simp add: cmdAdd_explicit_lookup_indep)
next
  assume "MACAddress nArgs = []"
  moreover have "findMACAddressForContainer env (ContainerID args) (RancherContainerUUID nArgs)
                   (world s1) = (found, w2)"
    using lookup s1 by simp
  ultimately show "cmdAdd_macAddress env args nArgs s1 =
      (found,
       \<lparr>world = w2,
        calls = calls s1 @
          [Call_findMACAddressForContainer (ContainerID args) (RancherContainerUUID nArgs),
           (case found of Inl err \<Rightarrow> Stderr_Print err
            | Inr mac \<Rightarrow> Log_FoundMAC (ContainerID args) (IfName args) mac)]\<rparr>)"
    by (rule macAddress_lookup)
next
  fix err s2 assume "cmdAdd_macAddress env args nArgs s1 = (Inl err, s2)"
  then show "cmdAdd_network env args n nArgs netns s = (Some err, s2)"
    using network_mac_error [OF ipam ip4, of nArgs err s2 netns] s1 by simp
next
  fix mac s2 w3
  assume "cmdAdd_macAddress env args nArgs s1 = (Inr mac, s2) \<and>
          NsEnter env netns (world s2) = (None, w3)"
  then show "\<exists>cs. calls (snd (cmdAdd_network env args n nArgs netns s)) =
               calls s2 @ [Call_NsEnter, Call_setInterfaceMacAddress (IfName args) mac] @ cs"
    using network_after_mac [OF ipam ip4, of nArgs mac s2 netns w3] s1 by simp
qed

text \<open>
  Runs of C5: with the argument \<^verbatim>\<open>MACAddress=02:42:0a:00:00:05\<close> the address is set
  as given and a lookup that would fail and disturb the world changes nothing; without
  it the lookup is asked, and its error ends the command.
\<close>

theorem macAddress_resolution_witness:
  "cmdAdd_macAddress (demo_env (demo_conf ''bridge'' False) (demo_result (Some (demo_ip4 []))))
       (demo_args ''/proc/42/ns/net'' ''MACAddress=02:42:0a:00:00:05'')
       \<lparr>RancherContainerUUID = ''uuid-1'', LinkMTUOverhead = [], MACAddress = ''02:42:0a:00:00:05''\<rparr>
       \<lparr>world = world (demo_state [''eth1'']), calls = [Call_ExecAdd ''host-local'' [123, 125]]\<rparr> =
     (Inr ''02:42:0a:00:00:05'',
      \<lparr>world = world (demo_state [''eth1'']),
       calls = [Call_ExecAdd ''host-local'' [123, 125],
                Log_SettingMAC ''c42'' ''eth1'' ''02:42:0a:00:00:05'']\<rparr>) \<and>
   cmdAdd ((demo_env (demo_conf ''bridge'' False) (demo_result (Some (demo_ip4 []))))
             \<lparr>findMACAddressForContainer :=
                (\<lambda>cid uuid k. (Inl (External ''not found''), k\<lparr>host_links := []\<rparr>))\<rparr>)
       (demo_args ''/proc/42/ns/net'' ''MACAddress=02:42:0a:00:00:05'') (demo_state [''eth1'']) =
   cmdAdd (demo_env (demo_conf ''bridge'' False) (demo_result (Some (demo_ip4 []))))
       (demo_args ''/proc/42/ns/net'' ''MACAddress=02:42:0a:00:00:05'') (demo_state [''eth1'']) \<and>
   (\<exists>cs. calls (snd (cmdAdd_network
         (demo_env (demo_conf ''bridge'' False) (demo_result (Some (demo_ip4 []))))
         (demo_args ''/proc/42/ns/net'' ''MACAddress=02:42:0a:00:00:05'') (demo_conf ''bridge'' False)
         \<lparr>RancherContainerUUID = ''uuid-1'', LinkMTUOverhead = [],
          MACAddress = ''02:42:0a:00:00:05''\<rparr> 3 (demo_state [''eth1'']))) =
       [Call_ExecAdd ''host-local'' [123, 125],
        Log_SettingMAC ''c42'' ''eth1'' ''02:42:0a:00:00:05'',
        Call_NsEnter, Call_setInterfaceMacAddress ''eth1'' ''02:42:0a:00:00:05''] @ cs) \<and>
   cmdAdd_macAddress (demo_env (demo_conf ''bridge'' False) (demo_result (Some (demo_ip4 []))))
       (demo_args ''/proc/42/ns/net'' [])
       \<lparr>RancherContainerUUID = ''uuid-1'', LinkMTUOverhead = [], MACAddress = []\<rparr>
       \<lparr>world = world (demo_state [''eth1'']), calls = [Call_ExecAdd ''host-local'' [123, 125]]\<rparr> =
     (Inr ''02:42:0a:00:00:07'',
      \<lparr>world = world (demo_state [''eth1'']),
       calls = [Call_ExecAdd ''host-local'' [123, 125],
                Call_findMACAddressForContainer ''c42'' ''uuid-1'',
                Log_FoundMAC ''c42'' ''eth1'' ''02:42:0a:00:00:07'']\<rparr>) \<and>
   cmdAdd_network
       ((demo_env (demo_conf ''bridge'' False) (demo_result (Some (demo_ip4 []))))
          \<lparr>findMACAddressForContainer := (\<lambda>cid uuid k. (Inl (External ''not found''), k))\<rparr>)
       (demo_args ''/proc/42/ns/net'' []) (demo_conf ''bridge'' False)
       \<lparr>RancherContainerUUID = ''uuid-1'', LinkMTUOverhead = [], MACAddress = []\<rparr> 3
       (demo_state [''eth1'']) =
     (Some (External ''not found''),
      \<lparr>world = world (demo_state [''eth1'']),
       calls = [Call_ExecAdd ''host-local'' [123, 125],
                Call_findMACAddressForContainer ''c42'' ''uuid-1'',
                Stderr_Print (External ''not found'')]\<rparr>)"
proof -
  let ?n = "demo_conf ''bridge'' False"
  let ?res = "demo_result (Some (demo_ip4 []))"
  let ?env = "demo_env ?n ?res"
  let ?bad = "?env\<lparr>findMACAddressForContainer := (\<lambda>cid uuid k. (Inl (External ''not found''), k))\<rparr>"
  let ?given = "demo_args ''/proc/42/ns/net'' ''MACAddress=02:42:0a:00:00:05''"
  let ?plain = "demo_args ''/proc/42/ns/net'' []"
  let ?override = "\<lparr>RancherContainerUUID = ''uuid-1'', LinkMTUOverhead = [],
                    MACAddress = ''02:42:0a:00:00:05''\<rparr>"
  let ?none = "\<lparr>RancherContainerUUID = ''uuid-1'', LinkMTUOverhead = [], MACAddress = []\<rparr>"
  let ?s = "demo_state [''eth1'']"
  let ?s1 = "\<lparr>world = world ?s, calls = [Call_ExecAdd ''host-local'' [123, 125]]\<rparr>"
  note explicit = macAddress_resolution [where env = ?env and n = ?n and args = ?given
      and s = ?s and result = ?res and ?w1.0 = "world ?s" and ?s1.0 = ?s1 and nArgs = ?override
      and found = "Inr ''02:42:0a:00:00:07''" and ?w2.0 = "world ?s" and netns = 3]
  note looked_up = macAddress_resolution [where env = ?env and n = ?n and args = ?plain
      and s = ?s and result = ?res and ?w1.0 = "world ?s" and ?s1.0 = ?s1 and nArgs = ?none
      and found = "Inr ''02:42:0a:00:00:07''" and ?w2.0 = "world ?s" and netns = 3]
  note failing = macAddress_resolution [where env = ?bad and n = ?n and args = ?plain
      and s = ?s and result = ?res and ?w1.0 = "world ?s" and ?s1.0 = ?s1 and nArgs = ?none
      and found = "Inl (External ''not found'')" and ?w2.0 = "world ?s" and netns = 3]
  have hyps: "ExecAdd ?env (IPAM_Type ?n) (StdinData ?given) (world ?s) = (Inr ?res, world ?s)"
      "ExecAdd ?env (IPAM_Type ?n) (StdinData ?plain) (world ?s) = (Inr ?res, world ?s)"
      "ExecAdd ?bad (IPAM_Type ?n) (StdinData ?plain) (world ?s) = (Inr ?res, world ?s)"
      "IP4 ?res \<noteq> None"
      "?s1 = \<lparr>world = world ?s, calls = calls ?s @ [Call_ExecAdd (IPAM_Type ?n) (StdinData ?given)]\<rparr>"
      "?s1 = \<lparr>world = world ?s, calls = calls ?s @ [Call_ExecAdd (IPAM_Type ?n) (StdinData ?plain)]\<rparr>"
      "findMACAddressForContainer ?env (ContainerID ?given) (RancherContainerUUID ?override) (world ?s) =
         (Inr ''02:42:0a:00:00:07'', world ?s)"
      "findMACAddressForContainer ?env (ContainerID ?plain) (RancherContainerUUID ?none) (world ?s) =
         (Inr ''02:42:0a:00:00:07'', world ?s)"
      "findMACAddressForContainer ?bad (ContainerID ?plain) (RancherContainerUUID ?none) (world ?s) =
         (Inl (External ''not found''), world ?s)"
      "loadNetArgs ?env (Args ?given) = Inr ?override"
    by (simp_all add: demo_defs loadNetArgs_def)
  have a: "cmdAdd_macAddress ?env ?given ?override ?s1 =
     (Inr ''02:42:0a:00:00:05'',
      \<lparr>world = world ?s,
       calls = [Call_ExecAdd ''host-local'' [123, 125],
                Log_SettingMAC ''c42'' ''eth1'' ''02:42:0a:00:00:05'']\<rparr>)"
    using explicit [OF hyps(1) hyps(4) hyps(5) hyps(7)] by (simp add: demo_args_def)
  have b: "cmdAdd (?env\<lparr>findMACAddressForContainer :=
                (\<lambda>cid uuid k. (Inl (External ''not found''), k\<lparr>host_links := []\<rparr>))\<rparr>) ?given ?s =
           cmdAdd ?env ?given ?s"
    using explicit [OF hyps(1) hyps(4) hyps(5) hyps(7)] hyps(10) by simp
  have "NsEnter ?env 3 (world ?s) = (None, (world ?s)\<lparr>inside := True\<rparr>)"
    by (simp add: demo_defs)
  with a have c: "\<exists>cs. calls (snd (cmdAdd_network ?env ?given ?n ?override 3 ?s)) =
       [Call_ExecAdd ''host-local'' [123, 125],
        Log_SettingMAC ''c42'' ''eth1'' ''02:42:0a:00:00:05'',
        Call_NsEnter, Call_setInterfaceMacAddress ''eth1'' ''02:42:0a:00:00:05''] @ cs"
    using explicit [OF hyps(1) hyps(4) hyps(5) hyps(7)] by (simp add: demo_args_def)
  have d: "cmdAdd_macAddress ?env ?plain ?none ?s1 =
     (Inr ''02:42:0a:00:00:07'',
      \<lparr>world = world ?s,
       calls = [Call_ExecAdd ''host-local'' [123, 125],
                Call_findMACAddressForContainer ''c42'' ''uuid-1'',
                Log_FoundMAC ''c42'' ''eth1'' ''02:42:0a:00:00:07'']\<rparr>)"
    using looked_up [OF hyps(2) hyps(4) hyps(6) hyps(8)] by (simp add: demo_args_def)
  have "cmdAdd_macAddress ?bad ?plain ?none ?s1 =
     (Inl (External ''not found''),
      \<lparr>world = world ?s,
       calls = [Call_ExecAdd ''host-local'' [123, 125],
                Call_findMACAddressForContainer ''c42'' ''uuid-1'',
                Stderr_Print (External ''not found'')]\<rparr>)"
    using failing [OF hyps(3) hyps(4) hyps(6) hyps(9)] by (simp add: demo_args_def)
  then have e: "cmdAdd_network ?bad ?plain ?n ?none 3 ?s =
     (Some (External ''not found''),
      \<lparr>world = world ?s,
       calls = [Call_ExecAdd ''host-local'' [123, 125],
                Call_findMACAddressForContainer ''c42'' ''uuid-1'',
                Stderr_Print (External ''not found'')]\<rparr>)"
    using failing [OF hyps(3) hyps(4) hyps(6) hyps(9)] by simp
  from a b c d e show ?thesis by blast
qed

text \<open>
  What the steps after the interface add to the log, and how \<open>cmdAdd_network\<close> runs
  when the IPAM process answers with an IPv4 configuration, the MAC address is
  resolved and the namespace is entered.
\<close>

lemma macAddress_appends:
  "\<exists>cs. calls (snd (cmdAdd_macAddress env args nArgs s)) = calls s @ cs"
  by (auto simp: cmdAdd_macAddress_def logLine_def invoke_def split: prod.splits sum.splits)

lemma configure_success_last_call:
  assumes "cmdAdd_configure env args n mac result s = ((None, result1), s1)"
  shows "last (calls s1) = Call_configureInterface (IfName args) result1"
  using assms
  by (auto simp: cmdAdd_configure_def invoke_def split: prod.splits option.splits if_splits)

lemma network_run:
  assumes ipam: "ExecAdd env (IPAM_Type n) (StdinData args) (world s2) = (Inr result, w3)"
    and ip4: "IP4 result \<noteq> None"
    and mac: "cmdAdd_macAddress env args nArgs
                \<lparr>world = w3, calls = calls s2 @ [Call_ExecAdd (IPAM_Type n) (StdinData args)]\<rparr> =
              (Inr macAddressToSet, s4)"
    and enter: "NsEnter env netns (world s4) = (None, w5)"
    and configure: "cmdAdd_configure env args n macAddressToSet result
                      \<lparr>world = w5, calls = calls s4 @ [Call_NsEnter]\<rparr> = ((rc, result1), s6)"
    and s7: "s7 = \<lparr>world = NsLeave env netns (world s6), calls = calls s6 @ [Call_NsLeave]\<rparr>"
  shows "cmdAdd_network env args n nArgs netns s2 =
           (case rc of
              Some err \<Rightarrow> (Some err, s7)
            | None \<Rightarrow>
                invoke (Call_Print (result1\<lparr>Result_DNS := NetConf_DNS n\<rparr>))
                  (Result_Print env (result1\<lparr>Result_DNS := NetConf_DNS n\<rparr>)) s7)"
  using ipam ip4 mac enter configure s7
  by (cases rc) (auto simp: cmdAdd_network_def Do_def invoke_def)

text \<open>
  Claim C9. When the target interface already exists in the container's namespace, no
  link is created: the interface step calls \<open>setInterfaceDown\<close> and nothing else of the
  kernel, and logs a failure of that call without returning it. The command then runs
  the IPAM step, the MAC resolution and the configuration in the namespace, in this
  order and from the world \<open>setInterfaceDown\<close> left, whether or not that call failed:
  its result is the configuration's error or else the result of printing, followed by
  the deferred close of the namespace handle.
\<close>

theorem cmdAdd_existing_interface:
  assumes conf: "loadConf env (StdinData args) = Inr n"
    and nargs: "loadNetArgs env (Args args) = Inr nArgs"
    and getns: "GetNS env (Netns args) (world s) = (Inr netns, w0)"
    and s0: "s0 = \<lparr>world = w0, calls = calls s @ [Call_GetNS (Netns args)]\<rparr>"
    and present: "checkIfContainerInterfaceExists env args w0 = (True, w1)"
    and down: "setInterfaceDown env args w1 = (r, w2)"
    and new: "new = [Call_checkIfContainerInterfaceExists args,
                     Log_AlreadyHasInterface (IfName args),
                     Call_setInterfaceDown args] @
                    (case r of None \<Rightarrow> [] | Some err \<Rightarrow> [Log_SetDownFailed (IfName args) err])"
    and s2: "s2 = \<lparr>world = w2, calls = calls s0 @ new\<rparr>"
    and ipam: "ExecAdd env (IPAM_Type n) (StdinData args) w2 = (Inr result, w3)"
    and ip4: "IP4 result \<noteq> None"
    and mac: "cmdAdd_macAddress env args nArgs
                \<lparr>world = w3, calls = calls s2 @ [Call_ExecAdd (IPAM_Type n) (StdinData args)]\<rparr> =
              (Inr macAddressToSet, s4)"
    and enter: "NsEnter env netns (world s4) = (None, w5)"
    and configure: "cmdAdd_configure env args n macAddressToSet result
                      \<lparr>world = w5, calls = calls s4 @ [Call_NsEnter]\<rparr> = ((rc, result1), s6)"
    and s7: "s7 = \<lparr>world = NsLeave env netns (world s6), calls = calls s6 @ [Call_NsLeave]\<rparr>"
    and printed: "Result_Print env (result1\<lparr>Result_DNS := NetConf_DNS n\<rparr>) (world s7) = (rp, w8)"
    and s8: "s8 = (case rc of Some err \<Rightarrow> s7
                   | None \<Rightarrow> \<lparr>world = w8,
                       calls = calls s7 @ [Call_Print (result1\<lparr>Result_DNS := NetConf_DNS n\<rparr>)]\<rparr>)"
  shows "cmdAdd_interface env args n netns s0 = (None, s2) \<and>
         (\<forall>mv. Call_LinkAdd mv \<notin> set new) \<and>
         cmdAdd_body env args n nArgs netns s0 = cmdAdd_network env args n nArgs netns s2 \<and>
         cmdAdd_body env args n nArgs netns s0 =
           ((case rc of Some err \<Rightarrow> Some err | None \<Rightarrow> rp), s8) \<and>
         cmdAdd env args s =
           ((case rc of Some err \<Rightarrow> Some err | None \<Rightarrow> rp),
            \<lparr>world = snd (NsClose env netns (world s8)), calls = calls s8 @ [Call_NsClose]\<rparr>) \<and>
         (\<exists>cs. calls s4 = calls s2 @ [Call_ExecAdd (IPAM_Type n) (StdinData args)] @ cs) \<and>
         (\<exists>cs. calls s6 =
            calls s4 @ [Call_NsEnter, Call_setInterfaceMacAddress (IfName args) macAddressToSet] @ cs) \<and>
         (rc = None \<longrightarrow> last (calls s6) = Call_configureInterface (IfName args) result1)"
proof -
  have iface: "cmdAdd_interface env args n netns s0 = (None, s2)"
    using present down new s2 s0
    by (auto simp: cmdAdd_interface_def invoke_def logLine_def split: option.splits)
  have nolink: "\<forall>mv. Call_LinkAdd mv \<notin> set new"
    using new by (auto split: option.splits)
  have body: "cmdAdd_body env args n nArgs netns s0 = cmdAdd_network env args n nArgs netns s2"
    using iface by (simp add: cmdAdd_body_def)
  have ipam': "ExecAdd env (IPAM_Type n) (StdinData args) (world s2) = (Inr result, w3)"
    using ipam s2 by simp
  have net: "cmdAdd_network env args n nArgs netns s2 =
           ((case rc of Some err \<Rightarrow> Some err | None \<Rightarrow> rp), s8)"
    using network_run [OF ipam' ip4 mac enter configure s7] printed s8
    by (cases rc) (simp_all add: invoke_def)
  have whole: "cmdAdd env args s =
           ((case rc of Some err \<Rightarrow> Some err | None \<Rightarrow> rp),
            \<lparr>world = snd (NsClose env netns (world s8)), calls = calls s8 @ [Call_NsClose]\<rparr>)"
    using conf nargs getns s0 body net
    by (simp add: cmdAdd_def invoke_def split: prod.splits)
  have c4: "\<exists>cs. calls s4 = calls s2 @ [Call_ExecAdd (IPAM_Type n) (StdinData args)] @ cs"
    using macAddress_appends [of env args nArgs
        "\<lparr>world = w3, calls = calls s2 @ [Call_ExecAdd (IPAM_Type n) (StdinData args)]\<rparr>"] mac
    by simp
  have c6: "\<exists>cs. calls s6 =
            calls s4 @ [Call_NsEnter, Call_setInterfaceMacAddress (IfName args) macAddressToSet] @ cs"
    using configure_first_call [of env args n macAddressToSet result
        "\<lparr>world = w5, calls = calls s4 @ [Call_NsEnter]\<rparr>"] configure
    by simp
  have last: "rc = None \<longrightarrow> last (calls s6) = Call_configureInterface (IfName args) result1"
    using configure_success_last_call configure by blast
  from iface nolink body net whole c4 c6 last show ?thesis by (simp add: body)
qed

text \<open>
  A run of C9: \<^verbatim>\<open>eth1\<close> is there and cannot be set down; the command still asks
  the IPAM process, looks the MAC address up, sets it, configures the interface with
  the injected default route and prints the result.
\<close>

theorem cmdAdd_existing_interface_witness:
  "fst (setInterfaceDown
          ((demo_env (demo_conf ''bridge'' True) (demo_result (Some (demo_ip4 []))))
             \<lparr>setInterfaceDown := (\<lambda>args k. (Some (External ''no such device''), k))\<rparr>)
          (demo_args ''/proc/42/ns/net'' []) (world (demo_state [''eth1'']))) =
     Some (External ''no such device'') \<and>
   cmdAdd
       ((demo_env (demo_conf ''bridge'' True) (demo_result (Some (demo_ip4 []))))
          \<lparr>setInterfaceDown := (\<lambda>args k. (Some (External ''no such device''), k))\<rparr>)
       (demo_args ''/proc/42/ns/net'' []) (demo_state [''eth1'']) =
     (None,
      \<lparr>world = world (demo_state [''eth1'']),
       calls = [Call_GetNS ''/proc/42/ns/net'',
                Call_checkIfContainerInterfaceExists (demo_args ''/proc/42/ns/net'' []),
                Log_AlreadyHasInterface ''eth1'',
                Call_setInterfaceDown (demo_args ''/proc/42/ns/net'' []),
                Log_SetDownFailed ''eth1'' (External ''no such device''),
                Call_ExecAdd ''host-local'' [123, 125],
                Call_findMACAddressForContainer ''c42'' ''uuid-1'',
                Log_FoundMAC ''c42'' ''eth1'' ''02:42:0a:00:00:07'',
                Call_NsEnter,
                Call_setInterfaceMacAddress ''eth1'' ''02:42:0a:00:00:07'',
                Call_configureInterface ''eth1''
                  (demo_result (Some (demo_ip4
                     [\<lparr>Dst = demo_default_net, GW = Some [10, 0, 0, 1]\<rparr>]))),
                Call_NsLeave,
                Call_Print
                  ((demo_result (Some (demo_ip4
                     [\<lparr>Dst = demo_default_net, GW = Some [10, 0, 0, 1]\<rparr>])))
                   \<lparr>Result_DNS := demo_dns\<rparr>),
                Call_NsClose]\<rparr>)"
proof -
  let ?n = "demo_conf ''bridge'' True"
  let ?res = "demo_result (Some (demo_ip4 []))"
  let ?res1 = "demo_result (Some (demo_ip4 [\<lparr>Dst = demo_default_net, GW = Some [10, 0, 0, 1]\<rparr>]))"
  let ?env = "(demo_env ?n ?res)
                \<lparr>setInterfaceDown := (\<lambda>args k. (Some (External ''no such device''), k))\<rparr>"
  let ?args = "demo_args ''/proc/42/ns/net'' []"
  let ?nArgs = "\<lparr>RancherContainerUUID = ''uuid-1'', LinkMTUOverhead = [], MACAddress = []\<rparr>"
  let ?s = "demo_state [''eth1'']"
  let ?w = "world ?s"
  let ?in = "?w\<lparr>inside := True\<rparr>"
  let ?new = "[Call_checkIfContainerInterfaceExists ?args, Log_AlreadyHasInterface ''eth1'',
               Call_setInterfaceDown ?args, Log_SetDownFailed ''eth1'' (External ''no such device'')]"
  let ?cs2 = "Call_GetNS ''/proc/42/ns/net'' # ?new"
  let ?cs4 = "?cs2 @ [Call_ExecAdd ''host-local'' [123, 125],
                Call_findMACAddressForContainer ''c42'' ''uuid-1'',
                Log_FoundMAC ''c42'' ''eth1'' ''02:42:0a:00:00:07'']"
  let ?cs6 = "?cs4 @ [Call_NsEnter, Call_setInterfaceMacAddress ''eth1'' ''02:42:0a:00:00:07'',
                Call_configureInterface ''eth1'' ?res1]"
  let ?cs7 = "?cs6 @ [Call_NsLeave]"
  let ?cs8 = "?cs7 @ [Call_Print (?res1\<lparr>Result_DNS := demo_dns\<rparr>)]"
  have down: "fst (setInterfaceDown ?env ?args ?w) = Some (External ''no such device'')"
    by (simp add: demo_defs)
  have run: "cmdAdd ?env ?args ?s = (None, \<lparr>world = ?w, calls = ?cs8 @ [Call_NsClose]\<rparr>)"
    using cmdAdd_existing_interface [where env = ?env and args = ?args and n = ?n
        and nArgs = ?nArgs and s = ?s and netns = 3 and ?w0.0 = ?w
        and ?s0.0 = "\<lparr>world = ?w, calls = [Call_GetNS ''/proc/42/ns/net'']\<rparr>"
        and ?w1.0 = ?w and r = "Some (External ''no such device'')" and ?w2.0 = ?w
        and new = ?new and ?s2.0 = "\<lparr>world = ?w, calls = ?cs2\<rparr>"
        and result = ?res and ?w3.0 = ?w and macAddressToSet = "''02:42:0a:00:00:07''"
        and ?s4.0 = "\<lparr>world = ?w, calls = ?cs4\<rparr>" and ?w5.0 = ?in
        and rc = None and ?result1.0 = ?res1 and ?s6.0 = "\<lparr>world = ?in, calls = ?cs6\<rparr>"
        and ?s7.0 = "\<lparr>world = ?w, calls = ?cs7\<rparr>" and rp = None and ?w8.0 = ?w
        and ?s8.0 = "\<lparr>world = ?w, calls = ?cs8\<rparr>"]
    by (simp add: demo_defs loadConf_def loadNetArgs_def cmdAdd_macAddress_def
          cmdAdd_configure_def cmdAdd_defaultGW_def invoke_def logLine_def)
  from down run show ?thesis by simp
qed

subsection \<open>Creating the link\<close>

text \<open>
  Claim C8. \<open>modeFromString\<close> maps the empty string and \<^verbatim>\<open>bridge\<close> to bridge mode,
  \<^verbatim>\<open>private\<close>, \<^verbatim>\<open>vepa\<close> and \<^verbatim>\<open>passthru\<close> to their modes, and fails on every other
  string; \<open>createMacvlan\<close> then fails with that error before it calls anything, so
  whether the master link exists plays no part.
\<close>

theorem modeFromString_resolution:
  "modeFromString [] = Inr MACVLAN_MODE_BRIDGE \<and>
   modeFromString ''bridge'' = Inr MACVLAN_MODE_BRIDGE \<and>
   modeFromString ''private'' = Inr MACVLAN_MODE_PRIVATE \<and>
   modeFromString ''vepa'' = Inr MACVLAN_MODE_VEPA \<and>
   modeFromString ''passthru'' = Inr MACVLAN_MODE_PASSTHRU \<and>
   (s \<notin> {[], ''bridge'', ''private'', ''vepa'', ''passthru''} \<longrightarrow>
      modeFromString s = Inl (UnknownMode s) \<and>
      createMacvlan env (conf\<lparr>Mode := s\<rparr>) ifName netns st = (Some (UnknownMode s), st))"
  by (simp add: modeFromString_def createMacvlan_def)

text \<open>
  A run of C8: the mode \<^verbatim>\<open>macvtap\<close> with a master \<^verbatim>\<open>eth9\<close> that the host does not have.
\<close>

theorem modeFromString_resolution_witness:
  "''macvtap'' \<notin> {[], ''bridge'', ''private'', ''vepa'', ''passthru''} \<and>
   modeFromString ''macvtap'' = Inl (UnknownMode ''macvtap'') \<and>
   fst (LinkByName (demo_env (demo_conf ''macvtap'' False) (demo_result None)) ''eth9''
          (world (demo_state []))) = Inl (External ''Link not found'') \<and>
   createMacvlan (demo_env (demo_conf ''macvtap'' False) (demo_result None))
     ((demo_conf ''bridge'' False)\<lparr>Master := ''eth9'', Mode := ''macvtap''\<rparr>) ''eth1'' 3 (demo_state []) =
     (Some (UnknownMode ''macvtap''), demo_state [])"
  using modeFromString_resolution [of "''macvtap''"
      "demo_env (demo_conf ''macvtap'' False) (demo_result None)"
      "(demo_conf ''bridge'' False)\<lparr>Master := ''eth9''\<rparr>" "''eth1''" 3 "demo_state []"]
  by (simp add: demo_defs)

lemma createMacvlan_reaches_inNs:
  assumes mode: "modeFromString (Mode conf) = Inr mode"
    and master: "LinkByName env (Master conf) (world s) = (Inr m, w1)"
    and tmp: "RandomVethName env w1 = (Inr tmpName, w2)"
    and mv: "mv = \<lparr>Macvlan_LinkAttrs =
                     \<lparr>Index = 0, Link_MTU = MTU conf, Link_Name = tmpName,
                      ParentIndex = Index m, Namespace = Some (NsFd (Fd env netns))\<rparr>,
                   Macvlan_Mode = mode\<rparr>"
    and add: "LinkAdd env mv w2 = (None, w3)"
    and enter: "NsEnter env netns w3 = (None, w4)"
    and s4: "s4 = \<lparr>world = w4,
                   calls = calls s @ [Call_LinkByName (Master conf), Call_RandomVethName,
                                      Call_LinkAdd mv, Call_NsEnter]\<rparr>"
    and inNs: "createMacvlan_inNs env mv tmpName ifName s4 = (r, s5)"
  shows "createMacvlan env conf ifName netns s =
           (r, \<lparr>world = NsLeave env netns (world s5), calls = calls s5 @ [Call_NsLeave]\<rparr>)"
  using mode master tmp add enter inNs unfolding mv s4
  by (simp add: createMacvlan_def Do_def invoke_def)

lemma inNs_proxy_arp_failure:
  assumes "Sysctl env (''net.ipv4.conf.'' @ tmpName @ ''.proxy_arp'') ''1'' (world s) = (Inl err, w1)"
  shows "createMacvlan_inNs env mv tmpName ifName s =
           (Some (ProxyArpFailed tmpName err),
            \<lparr>world = snd (LinkDel env mv w1),
             calls = calls s @ [Call_Sysctl (''net.ipv4.conf.'' @ tmpName @ ''.proxy_arp'') ''1'',
                                Call_LinkDel mv]\<rparr>)"
  using assms by (simp add: createMacvlan_inNs_def invoke_def split: prod.splits)

lemma inNs_rename_failure:
  assumes "Sysctl env (''net.ipv4.conf.'' @ tmpName @ ''.proxy_arp'') ''1'' (world s) = (Inr v, w1)"
    and "renameLink env tmpName ifName
           \<lparr>world = w1,
            calls = calls s @ [Call_Sysctl (''net.ipv4.conf.'' @ tmpName @ ''.proxy_arp'') ''1'']\<rparr> =
         (Some err, s2)"
  shows "createMacvlan_inNs env mv tmpName ifName s =
           (Some (RenameFailed ifName err),
            \<lparr>world = snd (LinkDel env mv (world s2)), calls = calls s2 @ [Call_LinkDel mv]\<rparr>)"
  using assms by (simp add: createMacvlan_inNs_def invoke_def split: prod.splits)

lemma inNs_failure_ends_with_LinkDel:
  assumes "createMacvlan_inNs env mv tmpName ifName s = (Some err, s1)"
  shows "last (calls s1) = Call_LinkDel mv"
  using assms
  by (auto simp: createMacvlan_inNs_def invoke_def Let_def
        split: prod.splits sum.splits option.splits)

lemma inNs_failure_kind:
  assumes "createMacvlan_inNs env mv tmpName ifName s = (Some err, s1)"
  shows "\<exists>e. err = ProxyArpFailed tmpName e \<or> err = RenameFailed ifName e"
  using assms
  by (auto simp: createMacvlan_inNs_def invoke_def Let_def
        split: prod.splits sum.splits option.splits)

text \<open>
  Claim C3, as the code has it. When \<open>createMacvlan\<close> fails inside the namespace, at
  the proxy-ARP knob or at the rename, it calls \<open>LinkDel\<close> on the link it created as
  its last kernel call, ignores what \<open>LinkDel\<close> returns, and returns the proxy-ARP or
  rename error; the world it leaves is the one \<open>LinkDel\<close> left, switched back to the
  host namespace. Whether the link is gone is therefore up to that \<open>LinkDel\<close> call.
\<close>

theorem createMacvlan_rollback:
  assumes mode: "modeFromString (Mode conf) = Inr mode"
    and master: "LinkByName env (Master conf) (world s) = (Inr m, w1)"
    and tmp: "RandomVethName env w1 = (Inr tmpName, w2)"
    and mv: "mv = \<lparr>Macvlan_LinkAttrs =
                     \<lparr>Index = 0, Link_MTU = MTU conf, Link_Name = tmpName,
                      ParentIndex = Index m, Namespace = Some (NsFd (Fd env netns))\<rparr>,
                   Macvlan_Mode = mode\<rparr>"
    and add: "LinkAdd env mv w2 = (None, w3)"
    and enter: "NsEnter env netns w3 = (None, w4)"
    and s4: "s4 = \<lparr>world = w4,
                   calls = calls s @ [Call_LinkByName (Master conf), Call_RandomVethName,
                                      Call_LinkAdd mv, Call_NsEnter]\<rparr>"
    and knob: "knob = ''net.ipv4.conf.'' @ tmpName @ ''.proxy_arp''"
    and sysctl: "Sysctl env knob ''1'' w4 = (written, w5)"
    and s5: "s5 = \<lparr>world = w5, calls = calls s4 @ [Call_Sysctl knob ''1'']\<rparr>"
  shows "(\<forall>err. written = Inl err \<longrightarrow>
            createMacvlan env conf ifName netns s =
              (Some (ProxyArpFailed tmpName err),
               \<lparr>world = NsLeave env netns (snd (LinkDel env mv w5)),
                calls = calls s5 @ [Call_LinkDel mv, Call_NsLeave]\<rparr>)) \<and>
         (\<forall>v err s6. written = Inr v \<and> renameLink env tmpName ifName s5 = (Some err, s6) \<longrightarrow>
            createMacvlan env conf ifName netns s =
              (Some (RenameFailed ifName err),
               \<lparr>world = NsLeave env netns (snd (LinkDel env mv (world s6))),
                calls = calls s6 @ [Call_LinkDel mv, Call_NsLeave]\<rparr>)) \<and>
         (\<forall>err s6. createMacvlan_inNs env mv tmpName ifName s4 = (Some err, s6) \<longrightarrow>
            (\<exists>e. err = ProxyArpFailed tmpName e \<or> err = RenameFailed ifName e) \<and>
            last (calls s6) = Call_LinkDel mv \<and>
            createMacvlan env conf ifName netns s =
              (Some err, \<lparr>world = NsLeave env netns (world s6), calls = calls s6 @ [Call_NsLeave]\<rparr>))"
proof (intro conjI allI impI)
  fix err assume w: "written = Inl err"
  have "Sysctl env (''net.ipv4.conf.'' @ tmpName @ ''.proxy_arp'') ''1'' (world s4) = (Inl err, w5)"
    using sysctl w knob s4 by simp
  from inNs_proxy_arp_failure [OF this, of mv ifName]
  have "createMacvlan_inNs env mv tmpName ifName s4 =
          (Some (ProxyArpFailed tmpName err),
           \<lparr>world = snd (LinkDel env mv w5), calls = calls s5 @ [Call_LinkDel mv]\<rparr>)"
    using knob s5 by simp
  from createMacvlan_reaches_inNs [OF mode master tmp mv add enter s4 this]
  show "createMacvlan env conf ifName netns s =
          (Some (ProxyArpFailed tmpName err),
           \<lparr>world = NsLeave env netns (snd (LinkDel env mv w5)),
            calls = calls s5 @ [Call_LinkDel mv, Call_NsLeave]\<rparr>)"
    by simp
next
  fix v err s6
  assume a: "written = Inr v \<and> renameLink env tmpName ifName s5 = (Some err, s6)"
  have 1: "Sysctl env (''net.ipv4.conf.'' @ tmpName @ ''.proxy_arp'') ''1'' (world s4) = (Inr v, w5)"
    using sysctl a knob s4 by simp
  have 2: "renameLink env tmpName ifName
             \<lparr>world = w5,
              calls = calls s4 @ [Call_Sysctl (''net.ipv4.conf.'' @ tmpName @ ''.proxy_arp'') ''1'']\<rparr> =
           (Some err, s6)"
    using a knob s5 by simp
  from createMacvlan_reaches_inNs [OF mode master tmp mv add enter s4
      inNs_rename_failure [OF 1 2, of mv]]
  show "createMacvlan env conf ifName netns s =
          (Some (RenameFailed ifName err),
           \<lparr>world = NsLeave env netns (snd (LinkDel env mv (world s6))),
            calls = calls s6 @ [Call_LinkDel mv, Call_NsLeave]\<rparr>)"
    by simp
next
  fix err s6 assume "createMacvlan_inNs env mv tmpName ifName s4 = (Some err, s6)"
  then show "\<exists>e. err = ProxyArpFailed tmpName e \<or> err = RenameFailed ifName e"
    by (rule inNs_failure_kind)
next
  fix err s6 assume "createMacvlan_inNs env mv tmpName ifName s4 = (Some err, s6)"
  then show "last (calls s6) = Call_LinkDel mv"
    by (rule inNs_failure_ends_with_LinkDel)
next
  fix err s6 assume "createMacvlan_inNs env mv tmpName ifName s4 = (Some err, s6)"
  from createMacvlan_reaches_inNs [OF mode master tmp mv add enter s4 this]
  show "createMacvlan env conf ifName netns s =
          (Some err, \<lparr>world = NsLeave env netns (world s6), calls = calls s6 @ [Call_NsLeave]\<rparr>)" .
qed

text \<open>
  Two runs of C3 on a kernel that deletes what it is asked to: the proxy-ARP knob is
  refused, and the rename fails because \<^verbatim>\<open>eth1\<close> is taken. The temporary link is
  gone afterwards; in the second run the \<^verbatim>\<open>eth1\<close> that was there before remains.
\<close>

theorem createMacvlan_rollback_witness:
  "createMacvlan
       ((demo_env (demo_conf ''bridge'' False) (demo_result None))
          \<lparr>Sysctl := (\<lambda>name v k. (Inl (External ''permission denied''), k))\<rparr>)
       (demo_conf ''bridge'' False) ''eth1'' 3 (demo_state []) =
     (Some (ProxyArpFailed ''veth1a2b3c4d'' (External ''permission denied'')),
      \<lparr>world = \<lparr>host_links = [''lo'', ''eth0''], container_links = [], inside = False\<rparr>,
       calls = [Call_LinkByName ''eth0'', Call_RandomVethName,
                Call_LinkAdd \<lparr>Macvlan_LinkAttrs =
                    \<lparr>Index = 0, Link_MTU = 0, Link_Name = ''veth1a2b3c4d'', ParentIndex = 2,
                     Namespace = Some (NsFd 3)\<rparr>, Macvlan_Mode = MACVLAN_MODE_BRIDGE\<rparr>,
                Call_NsEnter,
                Call_Sysctl ''net.ipv4.conf.veth1a2b3c4d.proxy_arp'' ''1'',
                Call_LinkDel \<lparr>Macvlan_LinkAttrs =
                    \<lparr>Index = 0, Link_MTU = 0, Link_Name = ''veth1a2b3c4d'', ParentIndex = 2,
                     Namespace = Some (NsFd 3)\<rparr>, Macvlan_Mode = MACVLAN_MODE_BRIDGE\<rparr>,
                Call_NsLeave]\<rparr>) \<and>
   createMacvlan (demo_env (demo_conf ''bridge'' False) (demo_result None))
       (demo_conf ''bridge'' False) ''eth1'' 3 (demo_state [''eth1'']) =
     (Some (RenameFailed ''eth1'' (External ''file exists'')),
      \<lparr>world = \<lparr>host_links = [''lo'', ''eth0''], container_links = [''eth1''], inside = False\<rparr>,
       calls = [Call_LinkByName ''eth0'', Call_RandomVethName,
                Call_LinkAdd \<lparr>Macvlan_LinkAttrs =
                    \<lparr>Index = 0, Link_MTU = 0, Link_Name = ''veth1a2b3c4d'', ParentIndex = 2,
                     Namespace = Some (NsFd 3)\<rparr>, Macvlan_Mode = MACVLAN_MODE_BRIDGE\<rparr>,
                Call_NsEnter,
                Call_Sysctl ''net.ipv4.conf.veth1a2b3c4d.proxy_arp'' ''1'',
                Call_LinkByName ''veth1a2b3c4d'',
                Call_LinkSetName (demo_link ''veth1a2b3c4d'') ''eth1'',
                Call_LinkDel \<lparr>Macvlan_LinkAttrs =
                    \<lparr>Index = 0, Link_MTU = 0, Link_Name = ''veth1a2b3c4d'', ParentIndex = 2,
                     Namespace = Some (NsFd 3)\<rparr>, Macvlan_Mode = MACVLAN_MODE_BRIDGE\<rparr>,
                Call_NsLeave]\<rparr>)"
proof -
  let ?conf = "demo_conf ''bridge'' False"
  let ?env = "demo_env ?conf (demo_result None)"
  let ?denied = "?env\<lparr>Sysctl := (\<lambda>name v k. (Inl (External ''permission denied''), k))\<rparr>"
  let ?mv = "\<lparr>Macvlan_LinkAttrs =
                \<lparr>Index = 0, Link_MTU = 0, Link_Name = ''veth1a2b3c4d'', ParentIndex = 2,
                 Namespace = Some (NsFd 3)\<rparr>, Macvlan_Mode = MACVLAN_MODE_BRIDGE\<rparr>"
  let ?knob = "''net.ipv4.conf.veth1a2b3c4d.proxy_arp''"
  let ?k = "\<lambda>cl. \<lparr>host_links = [''lo'', ''eth0''], container_links = cl, inside = False\<rparr>"
  let ?in = "\<lambda>cl. \<lparr>host_links = [''lo'', ''eth0''], container_links = cl, inside = True\<rparr>"
  let ?cs4 = "[Call_LinkByName ''eth0'', Call_RandomVethName, Call_LinkAdd ?mv, Call_NsEnter]"
  have proxy_arp: "createMacvlan ?denied ?conf ''eth1'' 3 (demo_state []) =
     (Some (ProxyArpFailed ''veth1a2b3c4d'' (External ''permission denied'')),
      \<lparr>world = ?k [], calls = ?cs4 @ [Call_Sysctl ?knob ''1'', Call_LinkDel ?mv, Call_NsLeave]\<rparr>)"
    using createMacvlan_rollback [where env = ?denied and conf = ?conf and s = "demo_state []"
        and mode = MACVLAN_MODE_BRIDGE and m = "demo_link ''eth0''" and ?w1.0 = "?k []"
        and tmpName = "''veth1a2b3c4d''" and ?w2.0 = "?k []" and mv = ?mv and netns = 3
        and ?w3.0 = "?k [''veth1a2b3c4d'']" and ?w4.0 = "?in [''veth1a2b3c4d'']"
        and ?s4.0 = "\<lparr>world = ?in [''veth1a2b3c4d''], calls = ?cs4\<rparr>"
        and knob = ?knob and written = "Inl (External ''permission denied'')"
        and ?w5.0 = "?in [''veth1a2b3c4d'']"
        and ?s5.0 = "\<lparr>world = ?in [''veth1a2b3c4d''], calls = ?cs4 @ [Call_Sysctl ?knob ''1'']\<rparr>"
        and ifName = "''eth1''"]
    by (simp add: demo_defs modeFromString_def)
  have rename: "createMacvlan ?env ?conf ''eth1'' 3 (demo_state [''eth1'']) =
     (Some (RenameFailed ''eth1'' (External ''file exists'')),
      \<lparr>world = ?k [''eth1''],
       calls = ?cs4 @ [Call_Sysctl ?knob ''1'', Call_LinkByName ''veth1a2b3c4d'',
                Call_LinkSetName (demo_link ''veth1a2b3c4d'') ''eth1'',
                Call_LinkDel ?mv, Call_NsLeave]\<rparr>)"
    using createMacvlan_rollback [where env = ?env and conf = ?conf and s = "demo_state [''eth1'']"
        and mode = MACVLAN_MODE_BRIDGE and m = "demo_link ''eth0''" and ?w1.0 = "?k [''eth1'']"
        and tmpName = "''veth1a2b3c4d''" and ?w2.0 = "?k [''eth1'']" and mv = ?mv and netns = 3
        and ?w3.0 = "?k [''veth1a2b3c4d'', ''eth1'']" and ?w4.0 = "?in [''veth1a2b3c4d'', ''eth1'']"
        and ?s4.0 = "\<lparr>world = ?in [''veth1a2b3c4d'', ''eth1''], calls = ?cs4\<rparr>"
        and knob = ?knob and written = "Inr ''1''"
        and ?w5.0 = "?in [''veth1a2b3c4d'', ''eth1'']"
        and ?s5.0 = "\<lparr>world = ?in [''veth1a2b3c4d'', ''eth1''], calls = ?cs4 @ [Call_Sysctl ?knob ''1'']\<rparr>"
        and ifName = "''eth1''"]
    by (simp add: demo_defs modeFromString_def renameLink_def invoke_def)
  from proxy_arp rename show ?thesis by simp
qed

text \<open>
  Claim C3 as it is stated, that no interface with the temporary name remains after
  a failed call, does not hold when the kernel refuses the deletion as well: the call
  returns the proxy-ARP error and the temporary link is still in the container's
  namespace.
\<close>

theorem createMacvlan_leak_counterexample:
  "fst (createMacvlan (demo_env_no_rollback (demo_conf ''bridge'' False) (demo_result None))
          (demo_conf ''bridge'' False) ''eth1'' 3 (demo_state [])) =
     Some (ProxyArpFailed ''veth1a2b3c4d'' (External ''permission denied'')) \<and>
   container_links (world (snd (createMacvlan
          (demo_env_no_rollback (demo_conf ''bridge'' False) (demo_result None))
          (demo_conf ''bridge'' False) ''eth1'' 3 (demo_state [])))) = [''veth1a2b3c4d'']"
  by (simp add: demo_defs code_defs)

subsection \<open>The DEL command\<close>

text \<open>
  Claim C7. With an empty namespace path, DEL returns success right after the IPAM
  release has succeeded, in the world the release left; and whatever the loading and
  the release do, the only call DEL makes is the IPAM release: no namespace is opened
  and no link is deleted.
\<close>

theorem cmdDel_empty_netns:
  assumes empty: "Netns args = []"
  shows "(\<forall>n w1. loadConf env (StdinData args) = Inr n \<and>
            ExecDel env (IPAM_Type n) (StdinData args) (world s) = (None, w1) \<longrightarrow>
            cmdDel env args s =
              (None, \<lparr>world = w1,
                      calls = calls s @ [Call_ExecDel (IPAM_Type n) (StdinData args)]\<rparr>)) \<and>
         (\<forall>c \<in> set (calls (snd (cmdDel env args s))) - set (calls s).
            \<exists>plugin stdin. c = Call_ExecDel plugin stdin)"
  using empty
  by (auto simp: cmdDel_def invoke_def split: sum.splits prod.splits option.splits)

text \<open>
  A run of C7: the namespace path is empty and \<^verbatim>\<open>eth1\<close> stays where it is.
\<close>

theorem cmdDel_empty_netns_witness:
  "Netns (demo_args [] []) = [] \<and>
   cmdDel (demo_env (demo_conf ''bridge'' True) (demo_result None)) (demo_args [] [])
       (demo_state [''eth1'']) =
     (None, \<lparr>world = world (demo_state [''eth1'']),
             calls = [Call_ExecDel ''host-local'' [123, 125]]\<rparr>) \<and>
   set (calls (snd (cmdDel (demo_env (demo_conf ''bridge'' True) (demo_result None))
                      (demo_args [] []) (demo_state [''eth1''])))) -
     set (calls (demo_state [''eth1''])) = {Call_ExecDel ''host-local'' [123, 125]}"
  using cmdDel_empty_netns [where args = "demo_args [] []"
      and env = "demo_env (demo_conf ''bridge'' True) (demo_result None)"
      and s = "demo_state [''eth1'']"]
  by (simp add: demo_defs loadConf_def)

text \<open>
  Claim C2, as the code has it. With a non-empty namespace path, once the IPAM release
  has succeeded, DEL returns what opening the namespace and deleting the link return:
  the error of \<open>GetNS\<close> (a namespace that is not there) and the error of entering the
  namespace are returned as they are, and otherwise the result of \<open>DelLinkByName\<close> is
  the result of the command, an error (a link that is not there) as well as success.
\<close>

theorem cmdDel_in_namespace:
  assumes conf: "loadConf env (StdinData args) = Inr n"
    and ipam: "ExecDel env (IPAM_Type n) (StdinData args) (world s) = (None, w1)"
    and nonempty: "Netns args \<noteq> []"
    and getns: "GetNS env (Netns args) w1 = (opened, w2)"
  shows "(\<forall>err. opened = Inl err \<longrightarrow>
            cmdDel env args s =
              (Some err, \<lparr>world = w2,
                 calls = calls s @ [Call_ExecDel (IPAM_Type n) (StdinData args),
                                    Call_GetNS (Netns args)]\<rparr>)) \<and>
         (\<forall>netns err w3. opened = Inr netns \<and> NsEnter env netns w2 = (Some err, w3) \<longrightarrow>
            fst (cmdDel env args s) = Some err) \<and>
         (\<forall>netns w3 r w4. opened = Inr netns \<and> NsEnter env netns w2 = (None, w3) \<and>
            DelLinkByName env (IfName args) w3 = (r, w4) \<longrightarrow>
            fst (cmdDel env args s) = r \<and>
            calls (snd (cmdDel env args s)) =
              calls s @ [Call_ExecDel (IPAM_Type n) (StdinData args), Call_GetNS (Netns args),
                         Call_NsEnter, Call_DelLinkByName (IfName args), Call_NsLeave, Call_NsClose])"
  using conf ipam nonempty getns
  by (auto simp: cmdDel_def WithNetNSPath_def Do_def invoke_def split: prod.splits)

text \<open>
  Runs of C2 as the code has it: a namespace that is not there, a namespace that
  cannot be entered, a link that is not there, and a link that is deleted.
\<close>

theorem cmdDel_in_namespace_witness:
  "cmdDel (demo_env (demo_conf ''bridge'' False) (demo_result None))
       (demo_args ''/proc/43/ns/net'' []) (demo_state []) =
     (Some (External ''no such file or directory''),
      \<lparr>world = world (demo_state []),
       calls = [Call_ExecDel ''host-local'' [123, 125], Call_GetNS ''/proc/43/ns/net'']\<rparr>) \<and>
   fst (cmdDel ((demo_env (demo_conf ''bridge'' False) (demo_result None))
                  \<lparr>NsEnter := (\<lambda>netns k. (Some (External ''operation not permitted''), k))\<rparr>)
          (demo_args ''/proc/42/ns/net'' []) (demo_state [''eth1''])) =
     Some (External ''operation not permitted'') \<and>
   fst (cmdDel (demo_env (demo_conf ''bridge'' False) (demo_result None))
          (demo_args ''/proc/42/ns/net'' []) (demo_state [])) =
     Some (External ''Link not found'') \<and>
   fst (cmdDel (demo_env (demo_conf ''bridge'' False) (demo_result None))
          (demo_args ''/proc/42/ns/net'' []) (demo_state [''eth1''])) = None \<and>
   calls (snd (cmdDel (demo_env (demo_conf ''bridge'' False) (demo_result None))
          (demo_args ''/proc/42/ns/net'' []) (demo_state [''eth1'']))) =
     [Call_ExecDel ''host-local'' [123, 125], Call_GetNS ''/proc/42/ns/net'',
      Call_NsEnter, Call_DelLinkByName ''eth1'', Call_NsLeave, Call_NsClose]"
proof -
  let ?n = "demo_conf ''bridge'' False"
  let ?env = "demo_env ?n (demo_result None)"
  let ?locked = "?env\<lparr>NsEnter := (\<lambda>netns k. (Some (External ''operation not permitted''), k))\<rparr>"
  let ?gone = "demo_args ''/proc/43/ns/net'' []"
  let ?args = "demo_args ''/proc/42/ns/net'' []"
  let ?k = "\<lambda>cl. \<lparr>host_links = [''lo'', ''eth0''], container_links = cl, inside = False\<rparr>"
  have a: "cmdDel ?env ?gone (demo_state []) =
     (Some (External ''no such file or directory''),
      \<lparr>world = world (demo_state []),
       calls = [Call_ExecDel ''host-local'' [123, 125], Call_GetNS ''/proc/43/ns/net'']\<rparr>)"
    using cmdDel_in_namespace [where env = ?env and args = ?gone and n = ?n and s = "demo_state []"
        and ?w1.0 = "?k []" and opened = "Inl (External ''no such file or directory'')"
        and ?w2.0 = "?k []"]
    by (simp add: demo_defs loadConf_def)
  have b: "fst (cmdDel ?locked ?args (demo_state [''eth1''])) =
             Some (External ''operation not permitted'')"
    using cmdDel_in_namespace [where env = ?locked and args = ?args and n = ?n
        and s = "demo_state [''eth1'']" and ?w1.0 = "?k [''eth1'']" and opened = "Inr 3"
        and ?w2.0 = "?k [''eth1'']"]
    by (simp add: demo_defs loadConf_def)
  have c: "fst (cmdDel ?env ?args (demo_state [])) = Some (External ''Link not found'')"
    using cmdDel_in_namespace [where env = ?env and args = ?args and n = ?n
        and s = "demo_state []" and ?w1.0 = "?k []" and opened = "Inr 3" and ?w2.0 = "?k []"]
    by (simp add: demo_defs loadConf_def)
  have d: "fst (cmdDel ?env ?args (demo_state [''eth1''])) = None \<and>
           calls (snd (cmdDel ?env ?args (demo_state [''eth1'']))) =
             [Call_ExecDel ''host-local'' [123, 125], Call_GetNS ''/proc/42/ns/net'',
              Call_NsEnter, Call_DelLinkByName ''eth1'', Call_NsLeave, Call_NsClose]"
    using cmdDel_in_namespace [where env = ?env and args = ?args and n = ?n
        and s = "demo_state [''eth1'']" and ?w1.0 = "?k [''eth1'']" and opened = "Inr 3"
        and ?w2.0 = "?k [''eth1'']"]
    by (simp add: demo_defs loadConf_def)
  from a b c d show ?thesis by simp
qed

text \<open>
  Claim C2 as it is stated, that DEL succeeds when the path names a namespace that
  does not exist, does not hold: \<open>GetNS\<close> fails and DEL returns its error.
\<close>

theorem cmdDel_gone_namespace_counterexample:
  "Netns (demo_args ''/proc/43/ns/net'' []) \<noteq> [] \<and>
   fst (GetNS (demo_env (demo_conf ''bridge'' False) (demo_result None)) ''/proc/43/ns/net''
          (world (demo_state []))) = Inl (External ''no such file or directory'') \<and>
   fst (cmdDel (demo_env (demo_conf ''bridge'' False) (demo_result None))
          (demo_args ''/proc/43/ns/net'' []) (demo_state [])) =
     Some (External ''no such file or directory'')"
  by (simp add: demo_defs code_defs)

end
